theory Spec2Isabelle
  imports Main "HOL-Library.Char_ord" "HOL-Library.List_Lexorder"
begin

section \<open>Python values and the built-ins the program calls\<close>

text \<open>
  The values that travel through the program are the literals the command parser produces
  (\<open>str\<close>, \<open>bool\<close>, \<open>int\<close>) and what \<open>dict.get\<close> answers for a missing key
  (\<open>None\<close>). Floats, lists and nested documents, which only a hand-edited data file could
  hold, are outside this value type.

  A Python \<open>str\<close> is modelled as a \<open>string\<close> holding its UTF-8 bytes: an ASCII character
  is one \<open>char\<close>, a Cyrillic letter is two. The built-ins below are exact on ASCII text;
  \<open>py_lower\<close> also lowers the Cyrillic capitals U+0400..U+042F. Python additionally
  knows non-ASCII white space, digits, letters and case pairs, and refuses decimal
  strings of more than 4300 digits; none of that is modelled.
\<close>

datatype pyval = VNone | VBool bool | VInt int | VStr string

text \<open>A \<open>dict\<close> is an insertion-ordered association list; \<open>d[k] = v\<close> overwrites the
  entry of an existing key in place and appends a new key at the end.\<close>

type_synonym ('k, 'v) dict = "('k \<times> 'v) list"

definition dict_get :: "('k, 'v) dict \<Rightarrow> 'k \<Rightarrow> 'v option" where
  "dict_get d k = map_of d k"

definition dict_has :: "('k, 'v) dict \<Rightarrow> 'k \<Rightarrow> bool" where
  "dict_has d k = (map_of d k \<noteq> None)"

fun dict_set :: "'k \<Rightarrow> 'v \<Rightarrow> ('k, 'v) dict \<Rightarrow> ('k, 'v) dict" where
  "dict_set k v [] = [(k, v)]"
| "dict_set k v ((k', v') # d) = (if k' = k then (k, v) # d else (k', v') # dict_set k v d)"

fun dict_pop :: "'k \<Rightarrow> ('k, 'v) dict \<Rightarrow> ('k, 'v) dict" where
  "dict_pop k [] = []"
| "dict_pop k ((k', v') # d) = (if k' = k then dict_pop k d else (k', v') # dict_pop k d)"

text \<open>\<open>row.update(other)\<close>: the entries of \<open>other\<close> are stored one after the other.\<close>

fun dict_update :: "('k, 'v) dict \<Rightarrow> ('k, 'v) dict \<Rightarrow> ('k, 'v) dict" where
  "dict_update d [] = d"
| "dict_update d ((k, v) # other) = dict_update (dict_set k v d) other"

subsection \<open>Equality\<close>

text \<open>\<open>bool\<close> is a subclass of \<open>int\<close>: \<open>True == 1\<close> and \<open>False == 0\<close> hold, while a
  string equals only the same string and \<open>None\<close> only \<open>None\<close>.\<close>

fun py_num :: "pyval \<Rightarrow> int option" where
  "py_num (VInt i) = Some i"
| "py_num (VBool b) = Some (if b then 1 else 0)"
| "py_num (VStr s) = None"
| "py_num VNone = None"

fun py_eq :: "pyval \<Rightarrow> pyval \<Rightarrow> bool" where
  "py_eq (VStr a) (VStr b) = (a = b)"
| "py_eq VNone VNone = True"
| "py_eq a b = (case py_num a of None \<Rightarrow> False
                | Some x \<Rightarrow> (case py_num b of None \<Rightarrow> False | Some y \<Rightarrow> x = y))"


subsection \<open>\<open>str.strip\<close>, \<open>str.lower\<close>, \<open>str.isidentifier\<close>\<close>

definition is_space :: "char \<Rightarrow> bool" where
  "is_space c = (let n = (of_char c :: nat) in (9 \<le> n \<and> n \<le> 13) \<or> (28 \<le> n \<and> n \<le> 32))"

definition py_strip :: "string \<Rightarrow> string" where
  "py_strip s = rev (dropWhile is_space (rev (dropWhile is_space s)))"

definition is_upper :: "char \<Rightarrow> bool" where
  "is_upper c = (let n = (of_char c :: nat) in 65 \<le> n \<and> n \<le> 90)"

definition is_alpha :: "char \<Rightarrow> bool" where
  "is_alpha c = (let n = (of_char c :: nat) in (65 \<le> n \<and> n \<le> 90) \<or> (97 \<le> n \<and> n \<le> 122))"

definition is_digit :: "char \<Rightarrow> bool" where
  "is_digit c = (let n = (of_char c :: nat) in 48 \<le> n \<and> n \<le> 57)"

definition lower_char :: "char \<Rightarrow> char" where
  "lower_char c = (if is_upper c then char_of (of_char c + (32 :: nat)) else c)"

text \<open>The two-byte cases are the Cyrillic capitals: \<open>D0 90..9F\<close> (U+0410..U+041F) go to
  \<open>D0 B0..BF\<close>, \<open>D0 A0..AF\<close> (U+0420..U+042F) to \<open>D1 80..8F\<close>, and \<open>D0 80..8F\<close>
  (U+0400..U+040F) to \<open>D1 90..9F\<close>.\<close>

fun py_lower :: "string \<Rightarrow> string" where
  "py_lower [] = []"
| "py_lower [c] = [lower_char c]"
| "py_lower (c # d # cs) =
     (let n = (of_char d :: nat) in
      if c = CHR 0xD0 \<and> 0x90 \<le> n \<and> n \<le> 0x9F then CHR 0xD0 # char_of (n + 0x20) # py_lower cs
      else if c = CHR 0xD0 \<and> 0xA0 \<le> n \<and> n \<le> 0xAF then CHR 0xD1 # char_of (n - 0x20) # py_lower cs
      else if c = CHR 0xD0 \<and> 0x80 \<le> n \<and> n \<le> 0x8F then CHR 0xD1 # char_of (n + 0x10) # py_lower cs
      else lower_char c # py_lower (d # cs))"

definition isidentifier :: "string \<Rightarrow> bool" where
  "isidentifier s =
     (case s of [] \<Rightarrow> False
      | c # cs \<Rightarrow> (is_alpha c \<or> c = CHR ''_'')
                 \<and> list_all (\<lambda>x. is_alpha x \<or> is_digit x \<or> x = CHR ''_'') cs)"

text \<open>\<open>s.split(sep, 1)\<close> for a string that contains the separator: the text before
  its first occurrence and the text after it.\<close>

definition split1 :: "char \<Rightarrow> string \<Rightarrow> string \<times> string" where
  "split1 sep s = (takeWhile (\<lambda>c. c \<noteq> sep) s, tl (dropWhile (\<lambda>c. c \<noteq> sep) s))"

subsection \<open>\<open>int(x)\<close> and \<open>str(x)\<close>\<close>

definition digit_val :: "char \<Rightarrow> nat" where
  "digit_val c = of_char c - 48"

text \<open>Digits after the first one; a single underscore may stand between two digits.\<close>

fun parse_digits :: "string \<Rightarrow> nat \<Rightarrow> nat option" where
  "parse_digits [] acc = Some acc"
| "parse_digits [c] acc = (if is_digit c then Some (10 * acc + digit_val c) else None)"
| "parse_digits (c # d # cs) acc =
     (if is_digit c then parse_digits (d # cs) (10 * acc + digit_val c)
      else if c = CHR ''_'' \<and> is_digit d then parse_digits cs (10 * acc + digit_val d)
      else None)"

definition parse_nat :: "string \<Rightarrow> nat option" where
  "parse_nat s = (case s of [] \<Rightarrow> None
                  | c # cs \<Rightarrow> if is_digit c then parse_digits cs (digit_val c) else None)"

definition int_of_str :: "string \<Rightarrow> int option" where
  "int_of_str s =
     (case py_strip s of
        [] \<Rightarrow> None
      | c # cs \<Rightarrow> if c = CHR ''-'' then map_option (\<lambda>n. - int n) (parse_nat cs)
                 else if c = CHR ''+'' then map_option int (parse_nat cs)
                 else map_option int (parse_nat (c # cs)))"

text \<open>\<open>int(x)\<close>; \<open>None\<close> stands for the \<open>ValueError\<close> or \<open>TypeError\<close> it raises.\<close>

fun py_int :: "pyval \<Rightarrow> int option" where
  "py_int (VInt i) = Some i"
| "py_int (VBool b) = Some (if b then 1 else 0)"
| "py_int (VStr s) = int_of_str s"
| "py_int VNone = None"

fun str_of_nat :: "nat \<Rightarrow> string" where
  "str_of_nat n = (if n < 10 then [char_of (48 + n)]
                   else str_of_nat (n div 10) @ [char_of (48 + n mod 10)])"

definition str_of_int :: "int \<Rightarrow> string" where
  "str_of_int i = (if i < 0 then CHR ''-'' # str_of_nat (nat (- i)) else str_of_nat (nat i))"

fun py_str :: "pyval \<Rightarrow> string" where
  "py_str (VStr s) = s"
| "py_str (VInt i) = str_of_int i"
| "py_str (VBool b) = (if b then ''True'' else ''False'')"
| "py_str VNone = ''None''"

section \<open>Constants and errors\<close>

definition ID_COLUMN :: string where
  "ID_COLUMN = ''ID''"

text \<open>The keys of \<open>SUPPORTED_TYPES\<close>.\<close>

definition SUPPORTED_TYPES :: "string list" where
  "SUPPORTED_TYPES = [''int'', ''str'', ''bool'']"

text \<open>\<open>YES_ANSWERS\<close>; the last two are the UTF-8 bytes of the Cyrillic answers
  U+0434 and U+0434 U+0430.\<close>

definition YES_ANSWERS :: "string list" where
  "YES_ANSWERS = [''y'', ''yes'', [CHR 0xD0, CHR 0xB4], [CHR 0xD0, CHR 0xB4, CHR 0xD0, CHR 0xB0]]"

text \<open>The token sets of the \<open>bool\<close> branch of \<open>_coerce_value\<close>, the Cyrillic words
  (U+0434 U+0430, U+0434 and U+043D U+0435 U+0442, U+043D) as UTF-8 bytes.\<close>

definition TRUE_TOKENS :: "string list" where
  "TRUE_TOKENS = [''true'', ''1'', ''yes'', ''y'',
     [CHR 0xD0, CHR 0xB4, CHR 0xD0, CHR 0xB0], [CHR 0xD0, CHR 0xB4]]"

definition FALSE_TOKENS :: "string list" where
  "FALSE_TOKENS = [''false'', ''0'', ''no'', ''n'',
     [CHR 0xD0, CHR 0xBD, CHR 0xD0, CHR 0xB5, CHR 0xD1, CHR 0x82], [CHR 0xD0, CHR 0xBD]]"

text \<open>An \<open>InvalidValue\<close> carries the offending value and a message; the messages are Russian
  sentences, named here by what they say.\<close>

datatype offending =
    OStr string
  | OVal pyval
  | OList "pyval list"
  | OClause "(string, pyval) dict"

datatype reason =
    ExpectedColumnType
  | BadColumnName
  | IdIsAutomatic
  | UnsupportedType
  | ExpectedInt
  | ExpectedBool
  | BadTableName
  | WrongValueCount
  | WhereOneCondition
  | SetIsEmpty
  | CannotUpdateId
  | AllFieldsRequired
  | ExpectedKeyValue
  | Usage

datatype dberror = TableExists string | TableMissing string

text \<open>\<open>KeyError\<close> is the program's NotFound, \<open>DBError\<close> its AlreadyExists and its
  missing table on drop. The last three are never raised by the code modelled here; the
  error boundary has a branch for each.\<close>

datatype error =
    InvalidValue offending reason
  | KeyError string
  | DBError dberror
  | FileNotFoundError
  | ValueError
  | OtherException

fun is_InvalidValue :: "error \<Rightarrow> bool" where
  "is_InvalidValue (InvalidValue v r) = True"
| "is_InvalidValue e = False"

section \<open>Type coercion\<close>

definition coerce_value :: "string \<Rightarrow> pyval \<Rightarrow> error + pyval" where
  "coerce_value type_name raw =
     (if type_name \<notin> set SUPPORTED_TYPES then Inl (InvalidValue (OStr type_name) UnsupportedType)
      else if type_name = ''str'' then
        (case raw of VStr s \<Rightarrow> Inr raw | _ \<Rightarrow> Inr (VStr (py_str raw)))
      else if type_name = ''int'' then
        (case raw of
           VBool b \<Rightarrow> Inl (InvalidValue (OVal raw) ExpectedInt)
         | _ \<Rightarrow> (case py_int raw of
                   Some i \<Rightarrow> Inr (VInt i)
                 | None \<Rightarrow> Inl (InvalidValue (OVal raw) ExpectedInt)))
      else if type_name = ''bool'' then
        (case raw of
           VBool b \<Rightarrow> Inr raw
         | VStr s \<Rightarrow>
             (let v = py_lower (py_strip s) in
              if v \<in> set TRUE_TOKENS then Inr (VBool True)
              else if v \<in> set FALSE_TOKENS then Inr (VBool False)
              else Inl (InvalidValue (OVal raw) ExpectedBool))
         | _ \<Rightarrow> Inl (InvalidValue (OVal raw) ExpectedBool))
      else Inl (InvalidValue (OVal raw) UnsupportedType))"

section \<open>Schemas and metadata\<close>

record Column =
  name :: string
  type_name :: string

type_synonym row = "(string, pyval) dict"

type_synonym tables = "(string, Column list) dict"

text \<open>The metadata document: \<open>None\<close> when it has no \<open>tables\<close> entry (as the empty
  document of a fresh database), otherwise the mapping from table names to columns.\<close>

type_synonym metadata = "tables option"

text \<open>\<open>meta.setdefault("tables", {})\<close> changes the document it is given; every function
  below therefore also returns the metadata (and the row list) as the call leaves them.\<close>

definition normalize_meta :: "metadata \<Rightarrow> metadata" where
  "normalize_meta meta = (case meta of None \<Rightarrow> Some [] | Some t \<Rightarrow> Some t)"

definition tables_of :: "metadata \<Rightarrow> tables" where
  "tables_of meta = (case meta of None \<Rightarrow> [] | Some t \<Rightarrow> t)"

definition parse_column_spec :: "string \<Rightarrow> error + Column" where
  "parse_column_spec spec =
     (if CHR '':'' \<notin> set spec then Inl (InvalidValue (OStr spec) ExpectedColumnType)
      else
        let (nm, ty) = split1 (CHR '':'') spec
        in if \<not> isidentifier nm then Inl (InvalidValue (OStr nm) BadColumnName)
           else if nm = ID_COLUMN then Inl (InvalidValue (OStr nm) IdIsAutomatic)
           else if ty \<notin> set SUPPORTED_TYPES then Inl (InvalidValue (OStr ty) UnsupportedType)
           else Inr \<lparr>name = nm, type_name = ty\<rparr>)"

definition schema_columns :: "metadata \<Rightarrow> string \<Rightarrow> (error + Column list) \<times> metadata" where
  "schema_columns meta table_name =
     (let meta' = normalize_meta meta in
      case dict_get (tables_of meta') table_name of
        None \<Rightarrow> (Inl (KeyError table_name), meta')
      | Some cols \<Rightarrow> (Inr cols, meta'))"

text \<open>The dict comprehension \<open>{c.name: c.type_name for c in cols}\<close>.\<close>

fun schema_map_from :: "(string, string) dict \<Rightarrow> Column list \<Rightarrow> (string, string) dict" where
  "schema_map_from d [] = d"
| "schema_map_from d (c # cs) = schema_map_from (dict_set (name c) (type_name c) d) cs"

definition schema_map :: "Column list \<Rightarrow> (string, string) dict" where
  "schema_map cols = schema_map_from [] cols"

section \<open>Table lifecycle\<close>

text \<open>The list comprehension over \<open>_parse_column_spec\<close>: the first failing spec raises.\<close>

fun parse_specs :: "string list \<Rightarrow> error + Column list" where
  "parse_specs [] = Inr []"
| "parse_specs (c # cs) =
     (case parse_column_spec c of
        Inl e \<Rightarrow> Inl e
      | Inr col \<Rightarrow> (case parse_specs cs of Inl e \<Rightarrow> Inl e | Inr cols \<Rightarrow> Inr (col # cols)))"

text \<open>The result is the returned metadata or the error raised; the second component is the
  metadata document passed in, as the call leaves it.\<close>

definition create_table :: "metadata \<Rightarrow> string \<Rightarrow> string list \<Rightarrow> (error + metadata) \<times> metadata" where
  "create_table metadata table_name columns =
     (let meta = normalize_meta metadata in
      if \<not> isidentifier table_name then (Inl (InvalidValue (OStr table_name) BadTableName), meta)
      else if dict_has (tables_of meta) table_name then (Inl (DBError (TableExists table_name)), meta)
      else case parse_specs columns of
             Inl e \<Rightarrow> (Inl e, meta)
           | Inr user_cols \<Rightarrow>
               let full_cols = \<lparr>name = ID_COLUMN, type_name = ''int''\<rparr> # user_cols;
                   meta' = Some (dict_set table_name full_cols (tables_of meta))
               in (Inr meta', meta'))"

text \<open>\<open>confirm_action\<close>: the wrapped call runs only after an affirmative answer to the
  prompt; otherwise the result is \<open>None\<close>, a cancellation notice is printed and the
  arguments \<open>args\<close> are untouched.\<close>

definition confirmed :: "string \<Rightarrow> bool" where
  "confirmed answer = (py_lower (py_strip answer) \<in> set YES_ANSWERS)"

definition confirm_action :: "string \<Rightarrow> 's \<Rightarrow> 'a \<times> 's \<Rightarrow> 'a option \<times> 's" where
  "confirm_action answer args call =
     (if \<not> confirmed answer then (None, args) else (Some (fst call), snd call))"

text \<open>The function under the decorator.\<close>

definition drop_table_wrapped :: "metadata \<Rightarrow> string \<Rightarrow> (error + metadata) \<times> metadata" where
  "drop_table_wrapped metadata table_name =
     (let meta = normalize_meta metadata in
      if \<not> dict_has (tables_of meta) table_name then (Inl (DBError (TableMissing table_name)), meta)
      else let meta' = Some (dict_pop table_name (tables_of meta)) in (Inr meta', meta'))"

definition drop_table :: "string \<Rightarrow> metadata \<Rightarrow> string \<Rightarrow> (error + metadata) option \<times> metadata" where
  "drop_table answer metadata table_name =
     confirm_action answer metadata (drop_table_wrapped metadata table_name)"

definition list_tables :: "metadata \<Rightarrow> string list" where
  "list_tables metadata = sort (map fst (tables_of (normalize_meta metadata)))"

section \<open>Rows: insert, select, update, delete\<close>

text \<open>\<open>row.get(col)\<close>, with \<open>None\<close> for a missing key.\<close>

definition row_get :: "row \<Rightarrow> string \<Rightarrow> pyval" where
  "row_get r c = (case dict_get r c of None \<Rightarrow> VNone | Some v \<Rightarrow> v)"

text \<open>The loop of \<open>insert_record\<close> that fills the new record from the zipped columns and
  values.\<close>

fun build_record :: "(string, string) dict \<Rightarrow> (Column \<times> pyval) list \<Rightarrow> row \<Rightarrow> error + row" where
  "build_record schema [] record = Inr record"
| "build_record schema ((col, raw_val) # rest) record =
     (case dict_get schema (name col) of
        None \<Rightarrow> Inl (KeyError (name col))
      | Some ty \<Rightarrow>
          (case coerce_value ty raw_val of
             Inl e \<Rightarrow> Inl e
           | Inr v \<Rightarrow> build_record schema rest (dict_set (name col) v record)))"

text \<open>The loop over the rows that finds the largest ID, starting from \<open>max_id = 0\<close>;
  a row without an ID counts as \<open>0\<close>, a row whose ID \<open>int\<close> refuses is skipped.\<close>

fun max_id_loop :: "row list \<Rightarrow> int \<Rightarrow> int" where
  "max_id_loop [] max_id = max_id"
| "max_id_loop (r # table_data) max_id =
     (case py_int (case dict_get r ID_COLUMN of None \<Rightarrow> VInt 0 | Some v \<Rightarrow> v) of
        None \<Rightarrow> max_id_loop table_data max_id
      | Some i \<Rightarrow> max_id_loop table_data (max max_id i))"

text \<open>The result is the pair the function returns or the error it raises; the second
  component is the metadata and the row list passed in, as the call leaves them.\<close>

definition insert_record ::
  "metadata \<Rightarrow> string \<Rightarrow> pyval list \<Rightarrow> row list
     \<Rightarrow> (error + row list \<times> int) \<times> metadata \<times> row list" where
  "insert_record metadata table_name vals table_data =
     (case schema_columns metadata table_name of
        (Inl e, meta) \<Rightarrow> (Inl e, meta, table_data)
      | (Inr cols, meta) \<Rightarrow>
          let schema = schema_map cols;
              user_cols = filter (\<lambda>c. name c \<noteq> ID_COLUMN) cols
          in if length vals \<noteq> length user_cols
             then (Inl (InvalidValue (OList vals) WrongValueCount), meta, table_data)
             else (case build_record schema (zip user_cols vals) [] of
                     Inl e \<Rightarrow> (Inl e, meta, table_data)
                   | Inr record \<Rightarrow>
                       let new_id = max_id_loop table_data 0 + 1;
                           table_data' = table_data @ [dict_set ID_COLUMN (VInt new_id) record]
                       in (Inr (table_data', new_id), meta, table_data')))"

text \<open>A where-clause is \<open>None\<close> or a dict; \<open>not where_clause\<close> holds for \<open>None\<close> and for
  the empty dict.\<close>

definition select_records ::
  "metadata \<Rightarrow> string \<Rightarrow> row list \<Rightarrow> (string, pyval) dict option
     \<Rightarrow> (error + row list) \<times> metadata" where
  "select_records metadata table_name table_data where_clause =
     (case schema_columns metadata table_name of
        (Inl e, meta) \<Rightarrow> (Inl e, meta)
      | (Inr cols0, meta) \<Rightarrow>
          (case where_clause of
             None \<Rightarrow> (Inr table_data, meta)
           | Some [] \<Rightarrow> (Inr table_data, meta)
           | Some wc \<Rightarrow>
               (case schema_columns meta table_name of
                  (Inl e, meta') \<Rightarrow> (Inl e, meta')
                | (Inr cols, meta') \<Rightarrow>
                    let schema = schema_map cols in
                    (case wc of
                       [(col_name, raw_val)] \<Rightarrow>
                         (case dict_get schema col_name of
                            None \<Rightarrow> (Inl (KeyError col_name), meta')
                          | Some ty \<Rightarrow>
                              (case coerce_value ty raw_val of
                                 Inl e \<Rightarrow> (Inl e, meta')
                               | Inr val \<Rightarrow>
                                   (Inr (filter (\<lambda>r. py_eq (row_get r col_name) val) table_data),
                                    meta')))
                     | _ \<Rightarrow> (Inl (InvalidValue (OClause wc) WhereOneCondition), meta')))))"

text \<open>The loop of \<open>update_records\<close> that coerces the set-clause, entry by entry.\<close>

fun coerce_set ::
  "(string, string) dict \<Rightarrow> (string, pyval) dict \<Rightarrow> (string, pyval) dict
     \<Rightarrow> error + (string, pyval) dict" where
  "coerce_set schema [] coerced = Inr coerced"
| "coerce_set schema ((k, v) # rest) coerced =
     (case dict_get schema k of
        None \<Rightarrow> Inl (KeyError k)
      | Some ty \<Rightarrow>
          (case coerce_value ty v of
             Inl e \<Rightarrow> Inl e
           | Inr v' \<Rightarrow> coerce_set schema rest (dict_set k v' coerced)))"

text \<open>The loop over the rows: a matching row is updated in place and its ID recorded when
  \<open>int\<close> accepts it.\<close>

fun update_loop ::
  "string \<Rightarrow> pyval \<Rightarrow> (string, pyval) dict \<Rightarrow> row list \<Rightarrow> row list \<times> int list" where
  "update_loop w_col w_val coerced [] = ([], [])"
| "update_loop w_col w_val coerced (r # table_data) =
     (let (rows', ids) = update_loop w_col w_val coerced table_data in
      if py_eq (row_get r w_col) w_val then
        let r' = dict_update r coerced in
        (r' # rows', (case py_int (row_get r' ID_COLUMN) of None \<Rightarrow> ids | Some i \<Rightarrow> i # ids))
      else (r # rows', ids))"

definition update_records ::
  "metadata \<Rightarrow> string \<Rightarrow> row list \<Rightarrow> (string, pyval) dict \<Rightarrow> (string, pyval) dict
     \<Rightarrow> (error + row list \<times> int list) \<times> metadata \<times> row list" where
  "update_records metadata table_name table_data set_clause where_clause =
     (case schema_columns metadata table_name of
        (Inl e, meta) \<Rightarrow> (Inl e, meta, table_data)
      | (Inr cols, meta) \<Rightarrow>
          let schema = schema_map cols in
          if set_clause = [] then (Inl (InvalidValue (OClause set_clause) SetIsEmpty), meta, table_data)
          else if dict_has set_clause ID_COLUMN
            then (Inl (InvalidValue (OStr ID_COLUMN) CannotUpdateId), meta, table_data)
          else (case where_clause of
                  [(w_col, w_raw)] \<Rightarrow>
                    (case dict_get schema w_col of
                       None \<Rightarrow> (Inl (KeyError w_col), meta, table_data)
                     | Some ty \<Rightarrow>
                         (case coerce_value ty w_raw of
                            Inl e \<Rightarrow> (Inl e, meta, table_data)
                          | Inr w_val \<Rightarrow>
                              (case coerce_set schema set_clause [] of
                                 Inl e \<Rightarrow> (Inl e, meta, table_data)
                               | Inr coerced \<Rightarrow>
                                   let (table_data', updated_ids) =
                                         update_loop w_col w_val coerced table_data
                                   in (Inr (table_data', updated_ids), meta, table_data'))))
                | _ \<Rightarrow> (Inl (InvalidValue (OClause where_clause) WhereOneCondition), meta, table_data)))"

text \<open>The loop of \<open>delete_records\<close>: matching rows give their ID (when \<open>int\<close> accepts it),
  the others are kept.\<close>

fun delete_loop :: "string \<Rightarrow> pyval \<Rightarrow> row list \<Rightarrow> row list \<times> int list" where
  "delete_loop w_col w_val [] = ([], [])"
| "delete_loop w_col w_val (r # table_data) =
     (let (kept, deleted_ids) = delete_loop w_col w_val table_data in
      if py_eq (row_get r w_col) w_val then
        (kept, (case py_int (row_get r ID_COLUMN) of None \<Rightarrow> deleted_ids | Some i \<Rightarrow> i # deleted_ids))
      else (r # kept, deleted_ids))"

text \<open>The function under the decorator. It builds new lists and leaves \<open>table_data\<close> alone.\<close>

definition delete_records_wrapped ::
  "metadata \<Rightarrow> string \<Rightarrow> row list \<Rightarrow> (string, pyval) dict
     \<Rightarrow> (error + row list \<times> int list) \<times> metadata \<times> row list" where
  "delete_records_wrapped metadata table_name table_data where_clause =
     (case schema_columns metadata table_name of
        (Inl e, meta) \<Rightarrow> (Inl e, meta, table_data)
      | (Inr cols, meta) \<Rightarrow>
          let schema = schema_map cols in
          (case where_clause of
             [(w_col, w_raw)] \<Rightarrow>
               (case dict_get schema w_col of
                  None \<Rightarrow> (Inl (KeyError w_col), meta, table_data)
                | Some ty \<Rightarrow>
                    (case coerce_value ty w_raw of
                       Inl e \<Rightarrow> (Inl e, meta, table_data)
                     | Inr w_val \<Rightarrow> (Inr (delete_loop w_col w_val table_data), meta, table_data)))
           | _ \<Rightarrow> (Inl (InvalidValue (OClause where_clause) WhereOneCondition), meta, table_data)))"

definition delete_records ::
  "string \<Rightarrow> metadata \<Rightarrow> string \<Rightarrow> row list \<Rightarrow> (string, pyval) dict
     \<Rightarrow> (error + row list \<times> int list) option \<times> metadata \<times> row list" where
  "delete_records answer metadata table_name table_data where_clause =
     confirm_action answer (metadata, table_data)
       (delete_records_wrapped metadata table_name table_data where_clause)"

section \<open>The command parser: literals and the token form of insert\<close>

text \<open>Of \<open>parse_command\<close> only the branch for \<open>insert <table> col=value ...\<close> is modelled,
  from the token list \<open>shlex.split\<close> produces. \<open>Command\<close> is the dataclass of the parser; its
  fields carry the prefix \<open>cmd_\<close>.\<close>

record Command =
  cmd_name :: string
  cmd_table :: "string option"
  cmd_columns :: "string list option"
  cmd_values :: "pyval list option"
  cmd_set_clause :: "(string, pyval) dict option"
  cmd_where_clause :: "(string, pyval) dict option"

text \<open>The regular expression \<open>-?\d+\<close>, matched against the whole string.\<close>

definition is_int_literal :: "string \<Rightarrow> bool" where
  "is_int_literal raw =
     (case raw of
        [] \<Rightarrow> False
      | c # cs \<Rightarrow> if c = CHR ''-'' then cs \<noteq> [] \<and> list_all is_digit cs
                 else list_all is_digit (c # cs))"

definition parse_literal :: "string \<Rightarrow> pyval" where
  "parse_literal raw0 =
     (let raw = py_strip raw0; low = py_lower raw in
      if 2 \<le> length raw \<and> hd raw = CHR 0x22 \<and> last raw = CHR 0x22 then VStr (butlast (tl raw))
      else if low = ''true'' \<or> low = ''false'' then VBool (low = ''true'')
      else if is_int_literal raw then (case int_of_str raw of Some i \<Rightarrow> VInt i | None \<Rightarrow> VStr raw)
      else VStr raw)"

text \<open>The loop over the \<open>col=value\<close> tokens, filling the dict \<open>kv\<close>.\<close>

fun parse_pairs :: "string list \<Rightarrow> (string, pyval) dict \<Rightarrow> error + (string, pyval) dict" where
  "parse_pairs [] kv = Inr kv"
| "parse_pairs (p # pairs) kv =
     (if CHR ''='' \<notin> set p then Inl (InvalidValue (OStr p) ExpectedKeyValue)
      else let (k, v) = split1 (CHR ''='') p in parse_pairs pairs (dict_set k (parse_literal v) kv))"

text \<open>The branch \<open>cmd == "insert"\<close> of \<open>parse_command\<close>, for the stripped line and its
  tokens.\<close>

definition parse_insert_tokens :: "string \<Rightarrow> string list \<Rightarrow> error + Command" where
  "parse_insert_tokens line tokens =
     (if length tokens < 3 then Inl (InvalidValue (OStr line) Usage)
      else case parse_pairs (drop 2 tokens) [] of
             Inl e \<Rightarrow> Inl e
           | Inr kv \<Rightarrow>
               Inr \<lparr>cmd_name = ''insert_kv'', cmd_table = Some (tokens ! 1), cmd_columns = None,
                    cmd_values = None, cmd_set_clause = Some kv, cmd_where_clause = None\<rparr>)"

section \<open>The select cache\<close>

text \<open>\<open>create_cacher\<close> returns a closure over a fresh dict; the dict is passed explicitly
  here. The compute function is a call that may read and change a state and may raise, so
  that whether it ran shows in the state that comes back.\<close>

definition create_cacher :: "('k, 'v) dict" where
  "create_cacher = []"

definition cache_result ::
  "('k, 'v) dict \<Rightarrow> 'k \<Rightarrow> ('s \<Rightarrow> (error + 'v) \<times> 's) \<Rightarrow> 's \<Rightarrow> (error + 'v) \<times> ('k, 'v) dict \<times> 's" where
  "cache_result cache key value_func s =
     (case dict_get cache key of
        Some v \<Rightarrow> (Inr v, cache, s)
      | None \<Rightarrow>
          (case value_func s of
             (Inl e, s') \<Rightarrow> (Inl e, cache, s')
           | (Inr v, s') \<Rightarrow> (Inr v, dict_set key v cache, s')))"

section \<open>The store and the interactive loop\<close>

text \<open>What the program prints, one constructor per message; the time a handler took is
  left out of the timing line.\<close>

datatype message =
    OutHelp
  | OutNoFunction string
  | OutFileNotFound
  | OutNotFound string
  | OutInvalidValue offending
  | OutValidation
  | OutDBError dberror
  | OutUnexpected
  | OutCreated string "Column list"
  | OutNoTables
  | OutTableName string
  | OutDropped string
  | OutCancelled
  | OutInserted int string
  | OutUpdatedOne int string
  | OutUpdatedCount nat
  | OutDeletedOne int string
  | OutDeletedCount nat
  | OutInfo string "Column list" nat
  | OutTiming string
  | OutRows "string list" "pyval list list"
  | OutNoRecords

text \<open>The world the loop runs in: the metadata file (\<open>None\<close> when it is missing or has no
  \<open>tables\<close> entry), the data files with their modification times, the time the file system
  stamps on the next write, the cache of the running loop, and everything printed so far.
  The key of the cache holds the where-clause itself for the text \<open>str\<close> makes of it.\<close>

type_synonym cache_key = "string \<times> (string, pyval) dict option \<times> nat"

record world =
  meta_file :: metadata
  data_files :: "(string, row list \<times> nat) dict"
  now :: nat
  cacher :: "(cache_key, row list) dict"
  printed :: "message list"

definition print :: "message \<Rightarrow> world \<Rightarrow> world" where
  "print m w = w\<lparr>printed := printed w @ [m]\<rparr>"

definition load_metadata :: "world \<Rightarrow> metadata" where
  "load_metadata w = meta_file w"

definition save_metadata :: "metadata \<Rightarrow> world \<Rightarrow> world" where
  "save_metadata m w = w\<lparr>meta_file := m\<rparr>"

definition load_table_data :: "string \<Rightarrow> world \<Rightarrow> row list" where
  "load_table_data table_name w =
     (case dict_get (data_files w) table_name of None \<Rightarrow> [] | Some (rows, mtime) \<Rightarrow> rows)"

definition save_table_data :: "string \<Rightarrow> row list \<Rightarrow> world \<Rightarrow> world" where
  "save_table_data table_name rows w =
     w\<lparr>data_files := dict_set table_name (rows, now w) (data_files w)\<rparr>"

definition delete_table_file :: "string \<Rightarrow> world \<Rightarrow> world" where
  "delete_table_file table_name w = w\<lparr>data_files := dict_pop table_name (data_files w)\<rparr>"

text \<open>\<open>os.path.getmtime(path) if path.exists() else 0.0\<close>.\<close>

definition getmtime :: "string \<Rightarrow> world \<Rightarrow> nat" where
  "getmtime table_name w =
     (case dict_get (data_files w) table_name of None \<Rightarrow> 0 | Some (rows, mtime) \<Rightarrow> mtime)"

definition ensure_meta_shape :: "metadata \<Rightarrow> metadata" where
  "ensure_meta_shape meta = (case meta of None \<Rightarrow> Some [] | Some t \<Rightarrow> Some t)"

text \<open>\<open>cmd.table or ""\<close>.\<close>

definition table_or_empty :: "Command \<Rightarrow> string" where
  "table_or_empty cmd = (case cmd_table cmd of None \<Rightarrow> [] | Some t \<Rightarrow> t)"

text \<open>\<open>meta["tables"][table_name]["columns"]\<close>, a \<open>KeyError\<close> for an unknown table.\<close>

definition columns_for_table :: "metadata \<Rightarrow> string \<Rightarrow> error + string list" where
  "columns_for_table meta table_name =
     (case dict_get (tables_of meta) table_name of
        None \<Rightarrow> Inl (KeyError table_name)
      | Some cols \<Rightarrow> Inr (map name cols))"

definition user_columns_for_table :: "metadata \<Rightarrow> string \<Rightarrow> error + string list" where
  "user_columns_for_table meta table_name =
     (case columns_for_table meta table_name of
        Inl e \<Rightarrow> Inl e
      | Inr cols \<Rightarrow> Inr (filter (\<lambda>c. c \<noteq> ID_COLUMN) cols))"

definition make_table_view :: "string list \<Rightarrow> row list \<Rightarrow> message" where
  "make_table_view cols rows = OutRows cols (map (\<lambda>r. map (row_get r) cols) rows)"

definition table_info :: "metadata \<Rightarrow> string \<Rightarrow> row list \<Rightarrow> error + string \<times> Column list \<times> nat" where
  "table_info metadata table_name table_data =
     (case fst (schema_columns metadata table_name) of
        Inl e \<Rightarrow> Inl e
      | Inr cols \<Rightarrow> Inr (table_name, cols, length table_data))"

subsection \<open>The error boundary and the other wrappers\<close>

text \<open>The \<open>except\<close> branches of \<open>handle_db_errors\<close>, in their order.\<close>

fun error_message :: "error \<Rightarrow> message" where
  "error_message FileNotFoundError = OutFileNotFound"
| "error_message (KeyError k) = OutNotFound k"
| "error_message (InvalidValue v r) = OutInvalidValue v"
| "error_message ValueError = OutValidation"
| "error_message (DBError d) = OutDBError d"
| "error_message OtherException = OutUnexpected"

text \<open>A handler either finishes in a new world or raises. No handler prints or writes
  before the last call of it that can raise, so the world at a raise is the one the
  handler started in.\<close>

definition handle_db_errors :: "(world \<Rightarrow> error + world) \<Rightarrow> world \<Rightarrow> world" where
  "handle_db_errors func w =
     (case func w of Inr w' \<Rightarrow> w' | Inl e \<Rightarrow> print (error_message e) w)"

definition log_time :: "string \<Rightarrow> (world \<Rightarrow> world) \<Rightarrow> world \<Rightarrow> world" where
  "log_time func_name func w = print (OutTiming func_name) (func w)"

subsection \<open>The handlers\<close>

text \<open>Each \<open>_body\<close> is the function under the decorators; \<open>answer\<close> is what the user types
  when a handler asks for confirmation.\<close>

definition handle_create_table_body :: "Command \<Rightarrow> world \<Rightarrow> error + world" where
  "handle_create_table_body cmd w =
     (let meta = ensure_meta_shape (load_metadata w);
          table_name = table_or_empty cmd
      in case fst (create_table meta table_name
                     (case cmd_columns cmd of None \<Rightarrow> [] | Some cs \<Rightarrow> cs)) of
           Inl e \<Rightarrow> Inl e
         | Inr updated \<Rightarrow>
             (case dict_get (tables_of updated) table_name of
                None \<Rightarrow> Inl (KeyError table_name)
              | Some cols \<Rightarrow>
                  Inr (print (OutCreated table_name cols)
                        (save_table_data table_name [] (save_metadata updated w)))))"

definition handle_create_table :: "Command \<Rightarrow> world \<Rightarrow> world" where
  "handle_create_table cmd = handle_db_errors (handle_create_table_body cmd)"

definition handle_list_tables_body :: "world \<Rightarrow> error + world" where
  "handle_list_tables_body w =
     (let tables = list_tables (ensure_meta_shape (load_metadata w))
      in if tables = [] then Inr (print OutNoTables w)
         else Inr (fold (\<lambda>t. print (OutTableName t)) tables w))"

definition handle_list_tables :: "world \<Rightarrow> world" where
  "handle_list_tables = handle_db_errors handle_list_tables_body"

definition handle_drop_table_body :: "Command \<Rightarrow> string \<Rightarrow> world \<Rightarrow> error + world" where
  "handle_drop_table_body cmd answer w =
     (let meta = ensure_meta_shape (load_metadata w);
          table_name = table_or_empty cmd
      in case fst (drop_table answer meta table_name) of
           None \<Rightarrow> Inr (print OutCancelled w)
         | Some (Inl e) \<Rightarrow> Inl e
         | Some (Inr updated) \<Rightarrow>
             Inr (print (OutDropped table_name)
                   (delete_table_file table_name (save_metadata updated w))))"

definition handle_drop_table :: "Command \<Rightarrow> string \<Rightarrow> world \<Rightarrow> world" where
  "handle_drop_table cmd answer = handle_db_errors (handle_drop_table_body cmd answer)"

text \<open>The loop of \<open>_handle_insert\<close> over the declared non-ID columns.\<close>

fun kv_values :: "string list \<Rightarrow> (string, pyval) dict \<Rightarrow> error + pyval list" where
  "kv_values [] kv = Inr []"
| "kv_values (col # user_cols) kv =
     (case dict_get kv col of
        None \<Rightarrow> Inl (InvalidValue (OStr col) AllFieldsRequired)
      | Some v \<Rightarrow> (case kv_values user_cols kv of Inl e \<Rightarrow> Inl e | Inr vs \<Rightarrow> Inr (v # vs)))"

definition insert_values :: "Command \<Rightarrow> metadata \<Rightarrow> string \<Rightarrow> error + pyval list" where
  "insert_values cmd meta table_name =
     (if cmd_name cmd = ''insert_kv'' then
        (case user_columns_for_table meta table_name of
           Inl e \<Rightarrow> Inl e
         | Inr user_cols \<Rightarrow>
             kv_values user_cols (case cmd_set_clause cmd of None \<Rightarrow> [] | Some kv \<Rightarrow> kv))
      else Inr (case cmd_values cmd of None \<Rightarrow> [] | Some vs \<Rightarrow> vs))"

definition handle_insert_body :: "Command \<Rightarrow> world \<Rightarrow> error + world" where
  "handle_insert_body cmd w =
     (let meta = ensure_meta_shape (load_metadata w);
          table_name = table_or_empty cmd;
          data = load_table_data table_name w
      in case insert_values cmd meta table_name of
           Inl e \<Rightarrow> Inl e
         | Inr vals \<Rightarrow>
             (case fst (insert_record meta table_name vals data) of
                Inl e \<Rightarrow> Inl e
              | Inr (data', new_id) \<Rightarrow>
                  Inr (print (OutInserted new_id table_name)
                        (save_table_data table_name data' w))))"

definition handle_insert :: "Command \<Rightarrow> world \<Rightarrow> world" where
  "handle_insert cmd = log_time ''_handle_insert'' (handle_db_errors (handle_insert_body cmd))"

definition handle_update_body :: "Command \<Rightarrow> world \<Rightarrow> error + world" where
  "handle_update_body cmd w =
     (let meta = ensure_meta_shape (load_metadata w);
          table_name = table_or_empty cmd;
          data = load_table_data table_name w
      in case fst (update_records meta table_name data
                     (case cmd_set_clause cmd of None \<Rightarrow> [] | Some sc \<Rightarrow> sc)
                     (case cmd_where_clause cmd of None \<Rightarrow> [] | Some wc \<Rightarrow> wc)) of
           Inl e \<Rightarrow> Inl e
         | Inr (data', updated_ids) \<Rightarrow>
             Inr (print (case updated_ids of
                           [i] \<Rightarrow> OutUpdatedOne i table_name
                         | _ \<Rightarrow> OutUpdatedCount (length updated_ids))
                   (save_table_data table_name data' w)))"

definition handle_update :: "Command \<Rightarrow> world \<Rightarrow> world" where
  "handle_update cmd = log_time ''_handle_update'' (handle_db_errors (handle_update_body cmd))"

definition handle_delete_body :: "Command \<Rightarrow> string \<Rightarrow> world \<Rightarrow> error + world" where
  "handle_delete_body cmd answer w =
     (let meta = ensure_meta_shape (load_metadata w);
          table_name = table_or_empty cmd;
          data = load_table_data table_name w
      in case fst (delete_records answer meta table_name data
                     (case cmd_where_clause cmd of None \<Rightarrow> [] | Some wc \<Rightarrow> wc)) of
           None \<Rightarrow> Inr (print OutCancelled w)
         | Some (Inl e) \<Rightarrow> Inl e
         | Some (Inr (data', deleted_ids)) \<Rightarrow>
             Inr (print (case deleted_ids of
                           [i] \<Rightarrow> OutDeletedOne i table_name
                         | _ \<Rightarrow> OutDeletedCount (length deleted_ids))
                   (save_table_data table_name data' w)))"

definition handle_delete :: "Command \<Rightarrow> string \<Rightarrow> world \<Rightarrow> world" where
  "handle_delete cmd answer =
     log_time ''_handle_delete'' (handle_db_errors (handle_delete_body cmd answer))"

definition handle_info_body :: "Command \<Rightarrow> world \<Rightarrow> error + world" where
  "handle_info_body cmd w =
     (let meta = ensure_meta_shape (load_metadata w);
          table_name = table_or_empty cmd;
          data = load_table_data table_name w
      in case table_info meta table_name data of
           Inl e \<Rightarrow> Inl e
         | Inr (t, cols, n) \<Rightarrow> Inr (print (OutInfo t cols n) w))"

definition handle_info :: "Command \<Rightarrow> world \<Rightarrow> world" where
  "handle_info cmd = handle_db_errors (handle_info_body cmd)"

subsection \<open>The loop\<close>

text \<open>One turn of the loop ends in the next prompt, in the return of \<open>run\<close>, or in an
  exception that leaves \<open>run\<close>.\<close>

datatype outcome = Continue world | Exit world | Crash error world

text \<open>The function \<open>compute\<close> that the select branch hands to the cacher: it reads the
  files and changes nothing.\<close>

definition compute :: "string \<Rightarrow> (string, pyval) dict option \<Rightarrow> world \<Rightarrow> (error + row list) \<times> world" where
  "compute table_name where_clause w =
     (fst (select_records (ensure_meta_shape (load_metadata w)) table_name
             (load_table_data table_name w) where_clause),
      w)"

text \<open>The select branch, written inside \<open>run\<close> without a decorator.\<close>

definition run_select :: "Command \<Rightarrow> world \<Rightarrow> outcome" where
  "run_select cmd w =
     (let table_name = table_or_empty cmd;
          mtime = getmtime table_name w;
          key = (table_name, cmd_where_clause cmd, mtime)
      in case cache_result (cacher w) key (compute table_name (cmd_where_clause cmd)) w of
           (Inl e, c, w1) \<Rightarrow> Crash e (w1\<lparr>cacher := c\<rparr>)
         | (Inr rows, c, w1) \<Rightarrow>
             let w2 = w1\<lparr>cacher := c\<rparr> in
             (case columns_for_table (ensure_meta_shape (load_metadata w2)) table_name of
                Inl e \<Rightarrow> Crash e w2
              | Inr cols \<Rightarrow>
                  Continue (print (if rows \<noteq> [] then make_table_view cols rows else OutNoRecords)
                             w2)))"

text \<open>An input line enters the loop as what \<open>parse_command\<close> makes of it: the command it
  returns or the exception it raises. With it come the first token of the line, the answer
  the user gives if the command asks for confirmation, and the file-system time at which
  the command runs.\<close>

record event =
  ev_head :: string
  ev_parsed :: "error + Command"
  ev_answer :: string
  ev_time :: nat

definition loop_body :: "event \<Rightarrow> world \<Rightarrow> outcome" where
  "loop_body ev w0 =
     (let w = w0\<lparr>now := ev_time ev\<rparr> in
      case ev_parsed ev of
        Inl e \<Rightarrow> Continue (if ev_head ev \<noteq> [] then print (OutNoFunction (ev_head ev)) w else w)
      | Inr cmd \<Rightarrow>
          if cmd_name cmd = ''help'' then Continue (print OutHelp w)
          else if cmd_name cmd = ''exit'' then Exit w
          else if cmd_name cmd = ''create_table'' then Continue (handle_create_table cmd w)
          else if cmd_name cmd = ''list_tables'' then Continue (handle_list_tables w)
          else if cmd_name cmd = ''drop_table'' then Continue (handle_drop_table cmd (ev_answer ev) w)
          else if cmd_name cmd = ''info'' then Continue (handle_info cmd w)
          else if cmd_name cmd = ''insert'' \<or> cmd_name cmd = ''insert_kv''
            then Continue (handle_insert cmd w)
          else if cmd_name cmd = ''update'' then Continue (handle_update cmd w)
          else if cmd_name cmd = ''delete'' then Continue (handle_delete cmd (ev_answer ev) w)
          else if cmd_name cmd = ''select'' then run_select cmd w
          else Continue (print (OutNoFunction (cmd_name cmd)) w))"

text \<open>The \<open>while True\<close> loop on the lines typed so far; \<open>Continue\<close> at the end of the list
  means that the loop is at its prompt.\<close>

fun run_loop :: "event list \<Rightarrow> world \<Rightarrow> outcome" where
  "run_loop [] w = Continue w"
| "run_loop (ev # evs) w =
     (case loop_body ev w of
        Continue w' \<Rightarrow> run_loop evs w'
      | Exit w' \<Rightarrow> Exit w'
      | Crash e w' \<Rightarrow> Crash e w')"

definition run :: "event list \<Rightarrow> world \<Rightarrow> outcome" where
  "run evs w = run_loop evs (print OutHelp (w\<lparr>cacher := create_cacher\<rparr>))"

section \<open>Notions used to state the properties\<close>

text \<open>The IDs the loop of \<open>insert_record\<close> sees: \<open>int(row.get("ID", 0))\<close> for every row
  on which that call does not raise, in row order.\<close>

definition parsable_ids :: "row list \<Rightarrow> int list" where
  "parsable_ids table_data =
     List.map_filter (\<lambda>r. py_int (case dict_get r ID_COLUMN of None \<Rightarrow> VInt 0 | Some v \<Rightarrow> v))
       table_data"

text \<open>Successive inserts into one table, each call receiving the rows the previous call
  returned; the result is the final rows and the IDs handed out, in order.\<close>

fun insert_many ::
  "metadata \<Rightarrow> string \<Rightarrow> pyval list list \<Rightarrow> row list \<Rightarrow> error + row list \<times> int list" where
  "insert_many metadata table_name [] table_data = Inr (table_data, [])"
| "insert_many metadata table_name (vals # later) table_data =
     (case fst (insert_record metadata table_name vals table_data) of
        Inl e \<Rightarrow> Inl e
      | Inr (table_data', new_id) \<Rightarrow>
          (case insert_many metadata table_name later table_data' of
             Inl e \<Rightarrow> Inl e
           | Inr (rows, ids) \<Rightarrow> Inr (rows, new_id # ids)))"

text \<open>A raw value is coercible for a column when the schema declares the column and
  \<open>_coerce_value\<close> accepts the value at the declared type.\<close>

definition coercible :: "(string, string) dict \<Rightarrow> string \<Rightarrow> pyval \<Rightarrow> bool" where
  "coercible schema col raw =
     (case dict_get schema col of
        None \<Rightarrow> False
      | Some ty \<Rightarrow> (case coerce_value ty raw of Inl e \<Rightarrow> False | Inr v \<Rightarrow> True))"



section \<open>Verified properties\<close>

subsection \<open>Type coercion\<close>





subsection \<open>Creating a table\<close>

lemma parse_column_spec_Inr:
  "parse_column_spec spec = Inr col \<Longrightarrow>
     isidentifier (name col) \<and> name col \<noteq> ID_COLUMN \<and> type_name col \<in> set SUPPORTED_TYPES
     \<and> name col = fst (split1 (CHR '':'') spec) \<and> type_name col = snd (split1 (CHR '':'') spec)"
  by (auto simp: parse_column_spec_def Let_def split: if_splits prod.splits)

lemma parse_specs_Inr:
  "parse_specs columns = Inr cols \<Longrightarrow>
     list_all (\<lambda>c. isidentifier (name c) \<and> name c \<noteq> ID_COLUMN \<and> type_name c \<in> set SUPPORTED_TYPES) cols
     \<and> map name cols = map (\<lambda>spec. fst (split1 (CHR '':'') spec)) columns
     \<and> map type_name cols = map (\<lambda>spec. snd (split1 (CHR '':'') spec)) columns"
proof (induction columns arbitrary: cols)
  case Nil
  then show ?case by simp
next
  case (Cons c cs)
  then obtain col rest where c: "parse_column_spec c = Inr col" and r: "parse_specs cs = Inr rest"
    and cols: "cols = col # rest"
    by (auto split: sum.splits)
  from Cons.IH [OF r] parse_column_spec_Inr [OF c] cols show ?case by auto
qed

lemma dict_get_dict_set: "dict_get (dict_set k v d) k = Some v"
  by (induction d) (auto simp: dict_get_def)

text \<open>
  C2, as stated, promises pairwise-distinct column names for every list of specs that
  \<open>create_table\<close> accepts, also when two specs repeat a name. Nothing in \<open>create_table\<close>
  or \<open>_parse_column_spec\<close> compares the names of different specs: the specs \<open>a:int a:str\<close>
  are accepted and give a schema with two columns named \<open>a\<close>.
\<close>

theorem create_table_duplicate_columns_counterexample:
  "create_table None ''t'' [''a:int'', ''a:str'']
     = (Inr (Some [(''t'', [\<lparr>name = ''ID'', type_name = ''int''\<rparr>,
                            \<lparr>name = ''a'', type_name = ''int''\<rparr>,
                            \<lparr>name = ''a'', type_name = ''str''\<rparr>])]),
        Some [(''t'', [\<lparr>name = ''ID'', type_name = ''int''\<rparr>,
                       \<lparr>name = ''a'', type_name = ''int''\<rparr>,
                       \<lparr>name = ''a'', type_name = ''str''\<rparr>])])
   \<and> \<not> distinct (map name [\<lparr>name = ''ID'', type_name = ''int''\<rparr>,
                       \<lparr>name = ''a'', type_name = ''int''\<rparr>,
                       \<lparr>name = ''a'', type_name = ''str''\<rparr>])"
  by code_simp

text \<open>
  C2 (amended): in every metadata map that \<open>create_table\<close> returns, the new table's schema is
  the column \<open>ID:int\<close> followed by one column per spec, in the order of the specs, with the
  name and the type written in the spec; every such column name is a valid identifier other
  than the reserved \<open>ID\<close> and every type is a supported one; and the column names of the
  schema are pairwise distinct exactly when the names written in the specs are.
\<close>

theorem create_table_schema:
  assumes "create_table metadata table_name columns = (Inr meta', after)"
  shows "\<exists>user_cols.
     dict_get (tables_of meta') table_name = Some (\<lparr>name = ID_COLUMN, type_name = ''int''\<rparr> # user_cols)
     \<and> map name user_cols = map (\<lambda>spec. fst (split1 (CHR '':'') spec)) columns
     \<and> map type_name user_cols = map (\<lambda>spec. snd (split1 (CHR '':'') spec)) columns
     \<and> list_all (\<lambda>c. isidentifier (name c) \<and> name c \<noteq> ID_COLUMN
                       \<and> type_name c \<in> set SUPPORTED_TYPES) user_cols
     \<and> (distinct (map name (\<lparr>name = ID_COLUMN, type_name = ''int''\<rparr> # user_cols))
          = distinct (map (\<lambda>spec. fst (split1 (CHR '':'') spec)) columns))"
proof -
  from assms obtain user_cols where p: "parse_specs columns = Inr user_cols"
    and m: "meta' = Some (dict_set table_name (\<lparr>name = ID_COLUMN, type_name = ''int''\<rparr> # user_cols)
                     (tables_of (normalize_meta metadata)))"
    by (auto simp: create_table_def Let_def split: if_splits sum.splits)
  note ps = parse_specs_Inr [OF p]
  from ps have "list_all (\<lambda>c. name c \<noteq> ID_COLUMN) user_cols"
    by (simp add: list_all_iff)
  then have "ID_COLUMN \<notin> set (map name user_cols)"
    by (auto simp: list_all_iff)
  then have d: "distinct (map name (\<lparr>name = ID_COLUMN, type_name = ''int''\<rparr> # user_cols))
                 = distinct (map name user_cols)"
    by simp
  have g: "dict_get (tables_of meta') table_name
             = Some (\<lparr>name = ID_COLUMN, type_name = ''int''\<rparr> # user_cols)"
    using m by (simp add: tables_of_def dict_get_dict_set)
  from ps have n: "map name user_cols = map (\<lambda>spec. fst (split1 (CHR '':'') spec)) columns"
    by blast
  from d n have d': "distinct (map name (\<lparr>name = ID_COLUMN, type_name = ''int''\<rparr> # user_cols))
                 = distinct (map (\<lambda>spec. fst (split1 (CHR '':'') spec)) columns)"
    by metis
  show ?thesis
    using g ps d' by (intro exI [of _ user_cols]) blast
qed

text \<open>The amended C2 on \<open>create_table users name:str age:int\<close> in a fresh database.\<close>

theorem create_table_schema_witness:
  "create_table None ''users'' [''name:str'', ''age:int'']
     = (Inr (Some [(''users'', [\<lparr>name = ''ID'', type_name = ''int''\<rparr>,
                            \<lparr>name = ''name'', type_name = ''str''\<rparr>,
                            \<lparr>name = ''age'', type_name = ''int''\<rparr>])]),
        Some [(''users'', [\<lparr>name = ''ID'', type_name = ''int''\<rparr>,
                       \<lparr>name = ''name'', type_name = ''str''\<rparr>,
                       \<lparr>name = ''age'', type_name = ''int''\<rparr>])])
   \<and> distinct (map name [\<lparr>name = ''ID'', type_name = ''int''\<rparr>,
                       \<lparr>name = ''name'', type_name = ''str''\<rparr>,
                       \<lparr>name = ''age'', type_name = ''int''\<rparr>])"
proof -
  have run: "create_table None ''users'' [''name:str'', ''age:int'']
     = (Inr (Some [(''users'', [\<lparr>name = ''ID'', type_name = ''int''\<rparr>,
                            \<lparr>name = ''name'', type_name = ''str''\<rparr>,
                            \<lparr>name = ''age'', type_name = ''int''\<rparr>])]),
        Some [(''users'', [\<lparr>name = ''ID'', type_name = ''int''\<rparr>,
                       \<lparr>name = ''name'', type_name = ''str''\<rparr>,
                       \<lparr>name = ''age'', type_name = ''int''\<rparr>])])"
    by code_simp
  have names: "distinct (map (\<lambda>spec. fst (split1 (CHR '':'') spec)) [''name:str'', ''age:int''])"
    by code_simp
  from create_table_schema [OF run] obtain user_cols where
    g: "dict_get (tables_of (Some [(''users'', [\<lparr>name = ''ID'', type_name = ''int''\<rparr>,
                       \<lparr>name = ''name'', type_name = ''str''\<rparr>,
                       \<lparr>name = ''age'', type_name = ''int''\<rparr>])])) ''users''
          = Some (\<lparr>name = ID_COLUMN, type_name = ''int''\<rparr> # user_cols)"
    and d: "distinct (map name (\<lparr>name = ID_COLUMN, type_name = ''int''\<rparr> # user_cols))
          = distinct (map (\<lambda>spec. fst (split1 (CHR '':'') spec)) [''name:str'', ''age:int''])"
    by blast
  from g have "\<lparr>name = ID_COLUMN, type_name = ''int''\<rparr> # user_cols
      = [\<lparr>name = ''ID'', type_name = ''int''\<rparr>, \<lparr>name = ''name'', type_name = ''str''\<rparr>,
         \<lparr>name = ''age'', type_name = ''int''\<rparr>]"
    by (simp add: tables_of_def dict_get_def)
  with d names have "distinct (map name [\<lparr>name = ''ID'', type_name = ''int''\<rparr>,
                       \<lparr>name = ''name'', type_name = ''str''\<rparr>,
                       \<lparr>name = ''age'', type_name = ''int''\<rparr>])"
    by metis
  with run show ?thesis by blast
qed

subsection \<open>Inserting a record\<close>

lemma max_id_loop_fold: "max_id_loop rows m = fold max (parsable_ids rows) m"
  by (induction rows arbitrary: m)
     (auto simp: parsable_ids_def List.map_filter_simps max.commute split: option.splits)

lemma max_id_loop_Max: "max_id_loop rows m = Max (set (m # parsable_ids rows))"
  by (simp only: max_id_loop_fold Max.set_eq_fold)

lemma max_id_loop_append:
  "max_id_loop (xs @ ys) m = max_id_loop ys (max_id_loop xs m)"
  by (induction xs arbitrary: m) (auto split: option.splits)

lemma max_id_loop_ge: "m \<le> max_id_loop rows m"
proof (induction rows arbitrary: m)
  case Nil
  then show ?case by simp
next
  case (Cons r rows)
  show ?case
  proof (cases "py_int (case dict_get r ID_COLUMN of None \<Rightarrow> VInt 0 | Some v \<Rightarrow> v)")
    case None
    then show ?thesis using Cons.IH [of m] by simp
  next
    case (Some i)
    then show ?thesis using Cons.IH [of "max m i"] by simp
  qed
qed

lemma row_get_dict_set: "row_get (dict_set k v d) k = v"
  by (simp add: row_get_def dict_get_dict_set)

lemma build_record_coercible:
  "list_all2 (\<lambda>c v. coercible schema (name c) v) cs vs
     \<Longrightarrow> \<exists>rcd. build_record schema (zip cs vs) acc = Inr rcd"
proof (induction cs vs arbitrary: acc rule: list_all2_induct)
  case Nil
  then show ?case by simp
next
  case (Cons c cs v vs)
  then show ?case by (auto simp: coercible_def split: option.splits sum.splits)
qed

lemma known_table:
  "dict_get (tables_of metadata) table_name = Some cols \<Longrightarrow>
     schema_columns metadata table_name = (Inr cols, metadata)"
  by (cases metadata) (auto simp: schema_columns_def normalize_meta_def tables_of_def dict_get_def)

lemma insert_record_valid:
  assumes known: "dict_get (tables_of metadata) table_name = Some cols"
    and arity: "length vals = length (filter (\<lambda>c. name c \<noteq> ID_COLUMN) cols)"
    and coercible: "list_all2 (\<lambda>c v. coercible (schema_map cols) (name c) v)
                      (filter (\<lambda>c. name c \<noteq> ID_COLUMN) cols) vals"
  shows "\<exists>r. insert_record metadata table_name vals table_data
               = (Inr (table_data @ [r], Max (set (0 # parsable_ids table_data)) + 1),
                  metadata, table_data @ [r])
            \<and> row_get r ID_COLUMN = VInt (Max (set (0 # parsable_ids table_data)) + 1)
            \<and> list_all (\<lambda>i. i < Max (set (0 # parsable_ids table_data)) + 1) (parsable_ids table_data)"
proof -
  from build_record_coercible [OF coercible] obtain rcd where
    b: "build_record (schema_map cols) (zip (filter (\<lambda>c. name c \<noteq> ID_COLUMN) cols) vals) [] = Inr rcd"
    by blast
  let ?n = "Max (set (0 # parsable_ids table_data)) + 1"
  have m: "max_id_loop table_data 0 + 1 = ?n"
    by (simp only: max_id_loop_Max)
  have "insert_record metadata table_name vals table_data
          = (Inr (table_data @ [dict_set ID_COLUMN (VInt ?n) rcd], ?n), metadata,
             table_data @ [dict_set ID_COLUMN (VInt ?n) rcd])"
    unfolding insert_record_def known_table [OF known] using arity b m
    by (simp add: Let_def)
  moreover have "list_all (\<lambda>i. i < ?n) (parsable_ids table_data)"
  proof -
    have "i \<le> Max (set (0 # parsable_ids table_data))" if "i \<in> set (parsable_ids table_data)" for i
      using that by (intro Max_ge) auto
    then show ?thesis by (fastforce simp: list_all_iff)
  qed
  ultimately show ?thesis
    using row_get_dict_set by blast
qed

lemma insert_record_Inr:
  assumes "fst (insert_record metadata table_name vals table_data) = Inr (rows, new_id)"
  shows "\<exists>r. rows = table_data @ [r] \<and> new_id = max_id_loop table_data 0 + 1
              \<and> dict_get r ID_COLUMN = Some (VInt new_id)"
  using assms
  by (auto simp: insert_record_def Let_def dict_get_dict_set split: prod.splits sum.splits if_splits)

lemma insert_many_ids:
  "insert_many metadata table_name vss table_data = Inr (rows, ids) \<Longrightarrow>
     ids = map (\<lambda>k. max_id_loop table_data 0 + int k) [1..<Suc (length vss)]
     \<and> max_id_loop rows 0 = max_id_loop table_data 0 + int (length vss)"
proof (induction vss arbitrary: table_data rows ids)
  case Nil
  then show ?case by simp
next
  case (Cons vals later)
  from Cons.prems obtain rows1 id1 ids1 where
    one: "fst (insert_record metadata table_name vals table_data) = Inr (rows1, id1)"
    and rest: "insert_many metadata table_name later rows1 = Inr (rows, ids1)"
    and ids: "ids = id1 # ids1"
    by (auto split: sum.splits prod.splits)
  from insert_record_Inr [OF one] obtain r where
    r: "rows1 = table_data @ [r]" "id1 = max_id_loop table_data 0 + 1"
       "dict_get r ID_COLUMN = Some (VInt id1)"
    by blast
  have m1: "max_id_loop rows1 0 = id1"
    using r max_id_loop_ge [of 0 table_data] by (simp add: max_id_loop_append)
  from Cons.IH [OF rest] m1 have
    a: "ids1 = map (\<lambda>k. id1 + int k) [1..<Suc (length later)]"
    and b: "max_id_loop rows 0 = id1 + int (length later)"
    by simp_all
  have "map (\<lambda>k. max_id_loop table_data 0 + int k) [1..<Suc (length (vals # later))]
          = id1 # map (\<lambda>k. id1 + int k) [1..<Suc (length later)]"
    unfolding r(2)
    by (simp add: upt_conv_Cons map_Suc_upt [symmetric] del: upt_Suc) 
  with a b ids r(2) show ?case by simp
qed


text \<open>
  C3, as stated, fails in three places. A value list of the right length is still refused
  when a value cannot be coerced to its column's type (first conjunct). The loop starts from
  \<open>max_id = 0\<close>, so a table whose only parsable ID is \<open>-5\<close> gets the new ID \<open>1\<close>, not
  \<open>1 + (-5)\<close> (second conjunct). And an ID is handed out again once the row that held the
  largest ID is deleted: after deleting ID 3 out of 1..3, the next insert yields 3 (last two
  conjuncts).
\<close>

theorem insert_record_id_counterexample:
  "fst (insert_record (Some [(''t'', [\<lparr>name = ''ID'', type_name = ''int''\<rparr>,
                                      \<lparr>name = ''a'', type_name = ''int''\<rparr>])])
          ''t'' [VStr ''abc''] [])
     = Inl (InvalidValue (OVal (VStr ''abc'')) ExpectedInt)
   \<and> fst (insert_record (Some [(''t'', [\<lparr>name = ''ID'', type_name = ''int''\<rparr>,
                                        \<lparr>name = ''a'', type_name = ''int''\<rparr>])])
          ''t'' [VInt 7] [[(''a'', VInt 1), (''ID'', VInt (- 5))]])
     = Inr ([[(''a'', VInt 1), (''ID'', VInt (- 5))], [(''a'', VInt 7), (''ID'', VInt 1)]], 1)
   \<and> fst (delete_records ''y'' (Some [(''t'', [\<lparr>name = ''ID'', type_name = ''int''\<rparr>,
                                        \<lparr>name = ''a'', type_name = ''int''\<rparr>])])
          ''t'' [[(''a'', VInt 5), (''ID'', VInt 1)], [(''a'', VInt 6), (''ID'', VInt 2)],
                 [(''a'', VInt 7), (''ID'', VInt 3)]] [(''ID'', VInt 3)])
     = Some (Inr ([[(''a'', VInt 5), (''ID'', VInt 1)], [(''a'', VInt 6), (''ID'', VInt 2)]], [3]))
   \<and> fst (insert_record (Some [(''t'', [\<lparr>name = ''ID'', type_name = ''int''\<rparr>,
                                        \<lparr>name = ''a'', type_name = ''int''\<rparr>])])
          ''t'' [VInt 8] [[(''a'', VInt 5), (''ID'', VInt 1)], [(''a'', VInt 6), (''ID'', VInt 2)]])
     = Inr ([[(''a'', VInt 5), (''ID'', VInt 1)], [(''a'', VInt 6), (''ID'', VInt 2)],
             [(''a'', VInt 8), (''ID'', VInt 3)]], 3)"
  by code_simp

lemma insert_scenario:
  "insert_many (Some [(''t'', [\<lparr>name = ''ID'', type_name = ''int''\<rparr>,
                                \<lparr>name = ''a'', type_name = ''int''\<rparr>])])
          ''t'' [[VInt 5], [VInt 6], [VInt 7]] []
     = Inr ([[(''a'', VInt 5), (''ID'', VInt 1)], [(''a'', VInt 6), (''ID'', VInt 2)],
             [(''a'', VInt 7), (''ID'', VInt 3)]], [1, 2, 3])
   \<and> fst (delete_records ''y'' (Some [(''t'', [\<lparr>name = ''ID'', type_name = ''int''\<rparr>,
                                        \<lparr>name = ''a'', type_name = ''int''\<rparr>])])
          ''t'' [[(''a'', VInt 5), (''ID'', VInt 1)], [(''a'', VInt 6), (''ID'', VInt 2)],
                 [(''a'', VInt 7), (''ID'', VInt 3)]] [(''ID'', VInt 2)])
     = Some (Inr ([[(''a'', VInt 5), (''ID'', VInt 1)], [(''a'', VInt 7), (''ID'', VInt 3)]], [2]))
   \<and> fst (insert_record (Some [(''t'', [\<lparr>name = ''ID'', type_name = ''int''\<rparr>,
                                        \<lparr>name = ''a'', type_name = ''int''\<rparr>])])
          ''t'' [VInt 8] [[(''a'', VInt 5), (''ID'', VInt 1)], [(''a'', VInt 7), (''ID'', VInt 3)]])
     = Inr ([[(''a'', VInt 5), (''ID'', VInt 1)], [(''a'', VInt 7), (''ID'', VInt 3)],
             [(''a'', VInt 8), (''ID'', VInt 4)]], 4)"
  by code_simp

text \<open>
  C3 (amended): for every known table and every value list whose length equals the number
  of non-ID columns and whose values are each coercible to the type of their column,
  \<open>insert_record\<close> assigns the new row the ID 1 + the maximum of 0 and the existing rows'
  IDs that parse as integers, appends the row, and returns the rows together with that new
  ID, which is larger than every parsable ID in the table at that moment. Consequently
  successive inserts into an empty table yield the IDs 1, 2, 3, ..., and after deleting the
  row with ID 2 out of the IDs 1..3 the next insert yields ID 4.
\<close>

theorem insert_record_next_id:
  "(dict_get (tables_of metadata) table_name = Some cols
      \<and> length vals = length (filter (\<lambda>c. name c \<noteq> ID_COLUMN) cols)
      \<and> list_all2 (\<lambda>c v. coercible (schema_map cols) (name c) v)
            (filter (\<lambda>c. name c \<noteq> ID_COLUMN) cols) vals
    \<longrightarrow> (\<exists>r. insert_record metadata table_name vals table_data
               = (Inr (table_data @ [r], Max (set (0 # parsable_ids table_data)) + 1),
                  metadata, table_data @ [r])
            \<and> row_get r ID_COLUMN = VInt (Max (set (0 # parsable_ids table_data)) + 1)
            \<and> list_all (\<lambda>i. i < Max (set (0 # parsable_ids table_data)) + 1)
                  (parsable_ids table_data)))
   \<and> (insert_many metadata table_name vss [] = Inr (rows, ids)
        \<longrightarrow> ids = map int [1..<Suc (length vss)])
   \<and> insert_many (Some [(''t'', [\<lparr>name = ''ID'', type_name = ''int''\<rparr>,
                                \<lparr>name = ''a'', type_name = ''int''\<rparr>])])
          ''t'' [[VInt 5], [VInt 6], [VInt 7]] []
     = Inr ([[(''a'', VInt 5), (''ID'', VInt 1)], [(''a'', VInt 6), (''ID'', VInt 2)],
             [(''a'', VInt 7), (''ID'', VInt 3)]], [1, 2, 3])
   \<and> fst (delete_records ''y'' (Some [(''t'', [\<lparr>name = ''ID'', type_name = ''int''\<rparr>,
                                        \<lparr>name = ''a'', type_name = ''int''\<rparr>])])
          ''t'' [[(''a'', VInt 5), (''ID'', VInt 1)], [(''a'', VInt 6), (''ID'', VInt 2)],
                 [(''a'', VInt 7), (''ID'', VInt 3)]] [(''ID'', VInt 2)])
     = Some (Inr ([[(''a'', VInt 5), (''ID'', VInt 1)], [(''a'', VInt 7), (''ID'', VInt 3)]], [2]))
   \<and> fst (insert_record (Some [(''t'', [\<lparr>name = ''ID'', type_name = ''int''\<rparr>,
                                        \<lparr>name = ''a'', type_name = ''int''\<rparr>])])
          ''t'' [VInt 8] [[(''a'', VInt 5), (''ID'', VInt 1)], [(''a'', VInt 7), (''ID'', VInt 3)]])
     = Inr ([[(''a'', VInt 5), (''ID'', VInt 1)], [(''a'', VInt 7), (''ID'', VInt 3)],
             [(''a'', VInt 8), (''ID'', VInt 4)]], 4)"
proof -
  have "ids = map int [1..<Suc (length vss)]"
    if "insert_many metadata table_name vss [] = Inr (rows, ids)"
    using insert_many_ids [OF that] by simp
  then show ?thesis
    using insert_record_valid [of metadata table_name cols vals table_data] insert_scenario
    by blast
qed

text \<open>
  The amended C3 on a table whose first row has an unparsable ID: the new ID is 3.
\<close>

theorem insert_record_next_id_witness:
  "\<exists>r. insert_record (Some [(''t'', [\<lparr>name = ''ID'', type_name = ''int''\<rparr>,
                                     \<lparr>name = ''a'', type_name = ''int''\<rparr>])])
          ''t'' [VStr ''7'']
          [[(''a'', VInt 1), (''ID'', VStr ''x'')], [(''a'', VInt 2), (''ID'', VInt 2)]]
        = (Inr ([[(''a'', VInt 1), (''ID'', VStr ''x'')], [(''a'', VInt 2), (''ID'', VInt 2)]] @ [r], 3),
           Some [(''t'', [\<lparr>name = ''ID'', type_name = ''int''\<rparr>,
                          \<lparr>name = ''a'', type_name = ''int''\<rparr>])],
           [[(''a'', VInt 1), (''ID'', VStr ''x'')], [(''a'', VInt 2), (''ID'', VInt 2)]] @ [r])
      \<and> row_get r ID_COLUMN = VInt 3"
proof -
  let ?T = "Some [(''t'', [\<lparr>name = ''ID'', type_name = ''int''\<rparr>,
                           \<lparr>name = ''a'', type_name = ''int''\<rparr>])]"
  let ?cols = "[\<lparr>name = ''ID'', type_name = ''int''\<rparr>, \<lparr>name = ''a'', type_name = ''int''\<rparr>]"
  let ?data = "[[(''a'', VInt 1), (''ID'', VStr ''x'')], [(''a'', VInt 2), (''ID'', VInt 2)]]"
  have known: "dict_get (tables_of ?T) ''t'' = Some ?cols" by code_simp
  have arity: "length [VStr ''7''] = length (filter (\<lambda>c. name c \<noteq> ID_COLUMN) ?cols)"
    by code_simp
  have co: "list_all2 (\<lambda>c v. coercible (schema_map ?cols) (name c) v)
              (filter (\<lambda>c. name c \<noteq> ID_COLUMN) ?cols) [VStr ''7'']"
    by code_simp
  have n: "Max (set (0 # parsable_ids ?data)) + 1 = 3" by code_simp
  from insert_record_next_id [of ?T "''t''" ?cols "[VStr ''7'']" ?data]
    known arity co
  show ?thesis unfolding n by blast
qed

subsection \<open>Selecting records\<close>

lemma dict_get_dict_set_other: "k' \<noteq> k \<Longrightarrow> dict_get (dict_set k v d) k' = dict_get d k'"
  by (induction d) (auto simp: dict_get_def)

text \<open>
  The schema map gives every declared column its type (the last declaration of a name
  wins, as in a dict comprehension), and nothing else.
\<close>

lemma schema_map_from_get:
  "dict_get (schema_map_from d cols) n
     = (case map_of (rev (map (\<lambda>c. (name c, type_name c)) cols)) n of
          Some ty \<Rightarrow> Some ty
        | None \<Rightarrow> dict_get d n)"
proof (induction cols arbitrary: d)
  case Nil
  then show ?case by simp
next
  case (Cons c cs)
  have "dict_get (schema_map_from (dict_set (name c) (type_name c) d) cs) n
          = (case map_of (rev (map (\<lambda>c. (name c, type_name c)) cs)) n of
               Some ty \<Rightarrow> Some ty
             | None \<Rightarrow> dict_get (dict_set (name c) (type_name c) d) n)"
    by (rule Cons.IH)
  then show ?case
    by (cases "n = name c")
       (auto simp: map_add_def dict_get_dict_set dict_get_dict_set_other split: option.splits)
qed

lemma schema_map_declared:
  "dict_has (schema_map cols) n = (n \<in> set (map name cols))"
proof -
  have "(map_of (rev (map (\<lambda>c. (name c, type_name c)) cols)) n \<noteq> None)
          = (n \<in> set (map name cols))"
    by (auto simp: map_of_eq_None_iff image_iff)
  then show ?thesis
    using schema_map_from_get [of "[]" cols n]
    by (auto simp: schema_map_def dict_has_def dict_get_def split: option.splits)
qed



subsection \<open>Deleting records\<close>

lemma delete_loop_partition:
  "delete_loop w_col w_val table_data
     = (filter (\<lambda>r. \<not> py_eq (row_get r w_col) w_val) table_data,
        List.map_filter (\<lambda>r. py_int (row_get r ID_COLUMN))
          (filter (\<lambda>r. py_eq (row_get r w_col) w_val) table_data))"
  by (induction table_data) (auto simp: List.map_filter_simps split: option.splits)

text \<open>
  C5, as stated, has \<open>delete_records\<close> return the kept rows and the deleted IDs for every
  known table and every single-condition predicate over a declared column. The function is
  decorated with \<open>confirm_action\<close>: when the answer to the prompt is not an affirmative
  one it returns \<open>None\<close>, although a row matches the predicate, and touches nothing.
\<close>

theorem delete_records_declined_counterexample:
  "delete_records ''n''
      (Some [(''t'', [\<lparr>name = ''ID'', type_name = ''int''\<rparr>, \<lparr>name = ''a'', type_name = ''int''\<rparr>])])
      ''t'' [[(''a'', VInt 5), (''ID'', VInt 1)], [(''a'', VInt 6), (''ID'', VInt 2)]]
      [(''ID'', VInt 1)]
     = (None,
        Some [(''t'', [\<lparr>name = ''ID'', type_name = ''int''\<rparr>, \<lparr>name = ''a'', type_name = ''int''\<rparr>])],
        [[(''a'', VInt 5), (''ID'', VInt 1)], [(''a'', VInt 6), (''ID'', VInt 2)]])"
  by code_simp

text \<open>
  C5 (amended): for every known table and single-condition equality predicate over a
  declared column whose value coerces to the column's type, the function under the
  decorator partitions the rows by equality against the coerced value, returns
  exactly the non-matching rows verbatim and in their original relative order, and returns
  the deleted rows' IDs in original row order, omitting IDs that do not parse as integers;
  \<open>delete_records\<close> itself returns that result once the prompt is answered affirmatively,
  and on any other answer returns \<open>None\<close> and leaves metadata and rows as they were.
\<close>

theorem delete_records_partition:
  "(dict_get (tables_of metadata) table_name = Some cols
      \<and> dict_get (schema_map cols) w_col = Some ty
      \<and> coerce_value ty w_raw = Inr w_val
    \<longrightarrow>
      fst (delete_records_wrapped metadata table_name table_data [(w_col, w_raw)])
        = Inr (filter (\<lambda>r. \<not> py_eq (row_get r w_col) w_val) table_data,
               List.map_filter (\<lambda>r. py_int (row_get r ID_COLUMN))
                 (filter (\<lambda>r. py_eq (row_get r w_col) w_val) table_data))
      \<and> (confirmed answer \<longrightarrow>
            fst (delete_records answer metadata table_name table_data [(w_col, w_raw)])
              = Some (Inr (filter (\<lambda>r. \<not> py_eq (row_get r w_col) w_val) table_data,
                           List.map_filter (\<lambda>r. py_int (row_get r ID_COLUMN))
                             (filter (\<lambda>r. py_eq (row_get r w_col) w_val) table_data)))))
   \<and> (\<not> confirmed answer \<longrightarrow>
         delete_records answer metadata table_name table_data where_clause
           = (None, metadata, table_data))"
proof -
  have a: "fst (delete_records_wrapped metadata table_name table_data [(w_col, w_raw)])
        = Inr (filter (\<lambda>r. \<not> py_eq (row_get r w_col) w_val) table_data,
               List.map_filter (\<lambda>r. py_int (row_get r ID_COLUMN))
                 (filter (\<lambda>r. py_eq (row_get r w_col) w_val) table_data))"
    if "dict_get (tables_of metadata) table_name = Some cols"
      and "dict_get (schema_map cols) w_col = Some ty"
      and "coerce_value ty w_raw = Inr w_val"
    using that(2,3)
    by (simp add: delete_records_wrapped_def known_table [OF that(1)] delete_loop_partition)
  have b: "fst (delete_records answer metadata table_name table_data wc)
             = Some (fst (delete_records_wrapped metadata table_name table_data wc))"
    if "confirmed answer" for wc
    using that by (simp add: delete_records_def confirm_action_def)
  have c: "delete_records answer metadata table_name table_data where_clause
             = (None, metadata, table_data)"
    if "\<not> confirmed answer"
    using that by (simp add: delete_records_def confirm_action_def)
  from a b c show ?thesis by simp
qed

text \<open>
  The amended C5 on four rows, one of them with an unparsable ID, confirmed with \<open>Y\<close> and
  declined with \<open>no\<close>.
\<close>

theorem delete_records_partition_witness:
  "fst (delete_records ''Y''
      (Some [(''t'', [\<lparr>name = ''ID'', type_name = ''int''\<rparr>, \<lparr>name = ''a'', type_name = ''int''\<rparr>])])
      ''t''
      [[(''a'', VInt 5), (''ID'', VInt 1)], [(''a'', VInt 6), (''ID'', VInt 2)],
       [(''a'', VInt 5), (''ID'', VStr ''x'')], [(''a'', VInt 5), (''ID'', VInt 4)]]
      [(''a'', VStr ''5'')])
     = Some (Inr ([[(''a'', VInt 6), (''ID'', VInt 2)]], [1, 4]))
   \<and> delete_records ''no''
      (Some [(''t'', [\<lparr>name = ''ID'', type_name = ''int''\<rparr>, \<lparr>name = ''a'', type_name = ''int''\<rparr>])])
      ''t''
      [[(''a'', VInt 5), (''ID'', VInt 1)], [(''a'', VInt 6), (''ID'', VInt 2)],
       [(''a'', VInt 5), (''ID'', VStr ''x'')], [(''a'', VInt 5), (''ID'', VInt 4)]]
      [(''a'', VStr ''5'')]
     = (None,
        Some [(''t'', [\<lparr>name = ''ID'', type_name = ''int''\<rparr>, \<lparr>name = ''a'', type_name = ''int''\<rparr>])],
        [[(''a'', VInt 5), (''ID'', VInt 1)], [(''a'', VInt 6), (''ID'', VInt 2)],
         [(''a'', VInt 5), (''ID'', VStr ''x'')], [(''a'', VInt 5), (''ID'', VInt 4)]])"
proof -
  let ?T = "Some [(''t'', [\<lparr>name = ''ID'', type_name = ''int''\<rparr>,
                           \<lparr>name = ''a'', type_name = ''int''\<rparr>])]"
  let ?cols = "[\<lparr>name = ''ID'', type_name = ''int''\<rparr>, \<lparr>name = ''a'', type_name = ''int''\<rparr>]"
  let ?data = "[[(''a'', VInt 5), (''ID'', VInt 1)], [(''a'', VInt 6), (''ID'', VInt 2)],
       [(''a'', VInt 5), (''ID'', VStr ''x'')], [(''a'', VInt 5), (''ID'', VInt 4)]]"
  have known: "dict_get (tables_of ?T) ''t'' = Some ?cols" by code_simp
  have decl: "dict_get (schema_map ?cols) ''a'' = Some ''int''" by code_simp
  have co: "coerce_value ''int'' (VStr ''5'') = Inr (VInt 5)" by code_simp
  have yes: "confirmed ''Y''" by code_simp
  have no: "\<not> confirmed ''no''" by code_simp
  have kept: "filter (\<lambda>r. \<not> py_eq (row_get r ''a'') (VInt 5)) ?data
                = [[(''a'', VInt 6), (''ID'', VInt 2)]]"
    by code_simp
  have ids: "List.map_filter (\<lambda>r. py_int (row_get r ID_COLUMN))
               (filter (\<lambda>r. py_eq (row_get r ''a'') (VInt 5)) ?data) = [1, 4]"
    by code_simp
  from delete_records_partition [of ?T "''t''" ?cols "''a''" "''int''" "VStr ''5''" "VInt 5" ?data "''Y''"]
    known decl co yes
  have 1: "fst (delete_records ''Y'' ?T ''t'' ?data [(''a'', VStr ''5'')])
             = Some (Inr ([[(''a'', VInt 6), (''ID'', VInt 2)]], [1, 4]))"
    unfolding kept ids by blast
  from delete_records_partition [of ?T "''t''" ?cols "''a''" "''int''" "VStr ''5''" "VInt 5" ?data "''no''"
      "[(''a'', VStr ''5'')]"] no
  have 2: "delete_records ''no'' ?T ''t'' ?data [(''a'', VStr ''5'')] = (None, ?T, ?data)"
    by blast
  from 1 2 show ?thesis by blast
qed

subsection \<open>Updating records\<close>

lemma dict_set_keys: "set (map fst (dict_set k v d)) = insert k (set (map fst d))"
  by (induction k v d rule: dict_set.induct) auto















subsection \<open>Failing operations\<close>

lemma schema_columns_meta: "snd (schema_columns metadata table_name) = normalize_meta metadata"
  by (simp add: schema_columns_def Let_def split: option.splits)

text \<open>
  C8, as stated, has every failing operation leave the metadata it received exactly as
  before the call. Each operation first runs \<open>_normalize_meta\<close>, whose \<open>setdefault\<close> writes
  an empty \<open>tables\<close> entry into a metadata document that has none: called on such a
  document, a failing \<open>create_table\<close> or \<open>insert_record\<close> leaves it with that entry.
\<close>

theorem failing_call_normalizes_counterexample:
  "create_table None ''1x'' [''a:int''] = (Inl (InvalidValue (OStr ''1x'') BadTableName), Some [])
   \<and> insert_record None ''t'' [VInt 1] [] = (Inl (KeyError ''t''), Some [], [])"
  by code_simp

text \<open>
  C8 (amended): when \<open>insert_record\<close>, \<open>update_records\<close>, \<open>delete_records\<close>,
  \<open>create_table\<close> or \<open>drop_table\<close> raises any of its errors, the row list it received is
  exactly as before the call and the metadata is as before up to normalisation: its tables
  are unchanged, and a document that already has a \<open>tables\<close> entry is exactly as before. In
  particular \<open>insert_record\<close> with a value count different from the number of non-ID
  columns raises InvalidValue without appending a row, and an \<open>update_records\<close> that fails
  has mutated no row.
\<close>

theorem failing_operations_keep_state:
  "(fst (insert_record metadata table_name vals table_data) = Inl e
      \<longrightarrow> snd (insert_record metadata table_name vals table_data)
            = (normalize_meta metadata, table_data))
   \<and> (fst (update_records metadata table_name table_data set_clause where_clause) = Inl e
      \<longrightarrow> snd (update_records metadata table_name table_data set_clause where_clause)
            = (normalize_meta metadata, table_data))
   \<and> (fst (delete_records answer metadata table_name table_data where_clause) = Some (Inl e)
      \<longrightarrow> snd (delete_records answer metadata table_name table_data where_clause)
            = (normalize_meta metadata, table_data))
   \<and> (fst (create_table metadata table_name columns) = Inl e
      \<longrightarrow> snd (create_table metadata table_name columns) = normalize_meta metadata)
   \<and> (fst (drop_table answer metadata table_name) = Some (Inl e)
      \<longrightarrow> snd (drop_table answer metadata table_name) = normalize_meta metadata)
   \<and> tables_of (normalize_meta metadata) = tables_of metadata
   \<and> (metadata \<noteq> None \<longrightarrow> normalize_meta metadata = metadata)
   \<and> (dict_get (tables_of metadata) table_name = Some cols
        \<and> length vals \<noteq> length (filter (\<lambda>c. name c \<noteq> ID_COLUMN) cols)
      \<longrightarrow> insert_record metadata table_name vals table_data
            = (Inl (InvalidValue (OList vals) WrongValueCount), metadata, table_data))"
proof -
  obtain res meta where sc: "schema_columns metadata table_name = (res, meta)"
    by (cases "schema_columns metadata table_name")
  with schema_columns_meta [of metadata table_name] have meta: "meta = normalize_meta metadata"
    by simp
  have ins: "snd (insert_record metadata table_name vals table_data)
            = (normalize_meta metadata, table_data)"
    if "fst (insert_record metadata table_name vals table_data) = Inl e"
    using that unfolding insert_record_def sc meta
    by (auto simp: Let_def split: sum.splits if_splits)
  have upd: "snd (update_records metadata table_name table_data set_clause where_clause)
            = (normalize_meta metadata, table_data)"
    if "fst (update_records metadata table_name table_data set_clause where_clause) = Inl e"
    using that unfolding update_records_def sc meta
    by (auto simp: Let_def split: sum.splits if_splits list.splits option.splits prod.splits)
  have del: "snd (delete_records answer metadata table_name table_data where_clause)
            = (normalize_meta metadata, table_data)"
    if "fst (delete_records answer metadata table_name table_data where_clause) = Some (Inl e)"
    using that unfolding delete_records_def confirm_action_def delete_records_wrapped_def sc meta
    by (auto simp: Let_def split: sum.splits if_splits list.splits option.splits prod.splits)
  have cre: "snd (create_table metadata table_name columns) = normalize_meta metadata"
    if "fst (create_table metadata table_name columns) = Inl e"
    using that unfolding create_table_def
    by (auto simp: Let_def split: sum.splits if_splits)
  have drp: "snd (drop_table answer metadata table_name) = normalize_meta metadata"
    if "fst (drop_table answer metadata table_name) = Some (Inl e)"
    using that unfolding drop_table_def confirm_action_def drop_table_wrapped_def
    by (auto simp: Let_def split: sum.splits if_splits)
  have tab: "tables_of (normalize_meta metadata) = tables_of metadata"
    by (simp add: tables_of_def normalize_meta_def split: option.splits)
  have same: "normalize_meta metadata = metadata" if "metadata \<noteq> None"
    using that by (auto simp: normalize_meta_def split: option.splits)
  have cnt: "insert_record metadata table_name vals table_data
            = (Inl (InvalidValue (OList vals) WrongValueCount), metadata, table_data)"
    if "dict_get (tables_of metadata) table_name = Some cols"
       "length vals \<noteq> length (filter (\<lambda>c. name c \<noteq> ID_COLUMN) cols)"
    using that(2) by (simp add: insert_record_def known_table [OF that(1)])
  from ins upd del cre drp tab same cnt show ?thesis by blast
qed

text \<open>
  The amended C8 on one failing call of each operation.
\<close>

theorem failing_operations_keep_state_witness:
  "insert_record
      (Some [(''t'', [\<lparr>name = ''ID'', type_name = ''int''\<rparr>, \<lparr>name = ''a'', type_name = ''int''\<rparr>])])
      ''t'' [VInt 1, VInt 2] [[(''a'', VInt 5), (''ID'', VInt 1)]]
     = (Inl (InvalidValue (OList [VInt 1, VInt 2]) WrongValueCount),
        Some [(''t'', [\<lparr>name = ''ID'', type_name = ''int''\<rparr>, \<lparr>name = ''a'', type_name = ''int''\<rparr>])],
        [[(''a'', VInt 5), (''ID'', VInt 1)]])
   \<and> snd (update_records
      (Some [(''t'', [\<lparr>name = ''ID'', type_name = ''int''\<rparr>, \<lparr>name = ''a'', type_name = ''int''\<rparr>])])
      ''t'' [[(''a'', VInt 5), (''ID'', VInt 1)]] [(''a'', VStr ''x'')] [(''a'', VInt 5)])
     = (Some [(''t'', [\<lparr>name = ''ID'', type_name = ''int''\<rparr>, \<lparr>name = ''a'', type_name = ''int''\<rparr>])],
        [[(''a'', VInt 5), (''ID'', VInt 1)]])
   \<and> snd (delete_records ''y''
      (Some [(''t'', [\<lparr>name = ''ID'', type_name = ''int''\<rparr>, \<lparr>name = ''a'', type_name = ''int''\<rparr>])])
      ''t'' [[(''a'', VInt 5), (''ID'', VInt 1)]] [(''b'', VInt 5)])
     = (Some [(''t'', [\<lparr>name = ''ID'', type_name = ''int''\<rparr>, \<lparr>name = ''a'', type_name = ''int''\<rparr>])],
        [[(''a'', VInt 5), (''ID'', VInt 1)]])
   \<and> snd (create_table
      (Some [(''t'', [\<lparr>name = ''ID'', type_name = ''int''\<rparr>, \<lparr>name = ''a'', type_name = ''int''\<rparr>])])
      ''t'' [''b:int''])
     = Some [(''t'', [\<lparr>name = ''ID'', type_name = ''int''\<rparr>, \<lparr>name = ''a'', type_name = ''int''\<rparr>])]
   \<and> snd (drop_table ''y''
      (Some [(''t'', [\<lparr>name = ''ID'', type_name = ''int''\<rparr>, \<lparr>name = ''a'', type_name = ''int''\<rparr>])])
      ''u'')
     = Some [(''t'', [\<lparr>name = ''ID'', type_name = ''int''\<rparr>, \<lparr>name = ''a'', type_name = ''int''\<rparr>])]"
proof -
  let ?T = "Some [(''t'', [\<lparr>name = ''ID'', type_name = ''int''\<rparr>,
                           \<lparr>name = ''a'', type_name = ''int''\<rparr>])]"
  let ?cols = "[\<lparr>name = ''ID'', type_name = ''int''\<rparr>, \<lparr>name = ''a'', type_name = ''int''\<rparr>]"
  let ?data = "[[(''a'', VInt 5), (''ID'', VInt 1)]]"
  have some: "?T \<noteq> None" by simp
  have known: "dict_get (tables_of ?T) ''t'' = Some ?cols" by code_simp
  have arity: "length [VInt 1, VInt 2 :: pyval] \<noteq> length (filter (\<lambda>c. name c \<noteq> ID_COLUMN) ?cols)"
    by code_simp
  have u: "fst (update_records ?T ''t'' ?data [(''a'', VStr ''x'')] [(''a'', VInt 5)])
             = Inl (InvalidValue (OVal (VStr ''x'')) ExpectedInt)"
    by code_simp
  have d: "fst (delete_records ''y'' ?T ''t'' ?data [(''b'', VInt 5)]) = Some (Inl (KeyError ''b''))"
    by code_simp
  have c: "fst (create_table ?T ''t'' [''b:int'']) = Inl (DBError (TableExists ''t''))"
    by code_simp
  have p: "fst (drop_table ''y'' ?T ''u'') = Some (Inl (DBError (TableMissing ''u'')))"
    by code_simp
  note inst = failing_operations_keep_state [where metadata = ?T and table_data = ?data]
  have n: "normalize_meta ?T = ?T"
    using inst some by blast
  have 1: "insert_record ?T ''t'' [VInt 1, VInt 2] ?data
             = (Inl (InvalidValue (OList [VInt 1, VInt 2]) WrongValueCount), ?T, ?data)"
    using inst [where table_name = "''t''" and vals = "[VInt 1, VInt 2]" and cols = ?cols]
      known arity by blast
  have 2: "snd (update_records ?T ''t'' ?data [(''a'', VStr ''x'')] [(''a'', VInt 5)]) = (?T, ?data)"
    using inst [where table_name = "''t''" and set_clause = "[(''a'', VStr ''x'')]"
        and where_clause = "[(''a'', VInt 5)]"
        and e = "InvalidValue (OVal (VStr ''x'')) ExpectedInt"] u n
    by metis
  have 3: "snd (delete_records ''y'' ?T ''t'' ?data [(''b'', VInt 5)]) = (?T, ?data)"
    using inst [where table_name = "''t''" and answer = "''y''"
        and where_clause = "[(''b'', VInt 5)]" and e = "KeyError ''b''"] d n
    by metis
  have 4: "snd (create_table ?T ''t'' [''b:int'']) = ?T"
    using inst [where table_name = "''t''" and columns = "[''b:int'']"
        and e = "DBError (TableExists ''t'')"] c n
    by metis
  have 5: "snd (drop_table ''y'' ?T ''u'') = ?T"
    using inst [where table_name = "''u''" and answer = "''y''"
        and e = "DBError (TableMissing ''u'')"] p n
    by metis
  from 1 2 3 4 5 show ?thesis by blast
qed

subsection \<open>The select cache\<close>









subsection \<open>The token form of insert\<close>

lemma kv_values_present:
  "list_all (dict_has kv) user_cols \<Longrightarrow> kv_values user_cols kv = Inr (map (row_get kv) user_cols)"
  by (induction user_cols) (auto simp: dict_has_def dict_get_def row_get_def)

lemma kv_values_missing:
  "\<not> list_all (dict_has kv) user_cols \<Longrightarrow>
     \<exists>c. kv_values user_cols kv = Inl (InvalidValue (OStr c) AllFieldsRequired)
          \<and> c \<in> set user_cols \<and> \<not> dict_has kv c"
proof (induction user_cols)
  case Nil
  then show ?case by simp
next
  case (Cons col user_cols)
  show ?case
  proof (cases "dict_get kv col")
    case None
    then show ?thesis by (auto simp: dict_has_def dict_get_def)
  next
    case (Some v)
    then have "dict_has kv col" by (simp add: dict_has_def dict_get_def)
    with Cons.prems have "\<not> list_all (dict_has kv) user_cols" by simp
    from Cons.IH [OF this] Some show ?thesis by auto
  qed
qed

lemma dict_get_filter_keys:
  "dict_get (filter (\<lambda>(k, v). k \<in> A) kv) c = (if c \<in> A then dict_get kv c else None)"
  by (induction kv) (auto simp: dict_get_def)

lemma kv_values_cong:
  "list_all (\<lambda>c. dict_get kv' c = dict_get kv c) user_cols \<Longrightarrow>
     kv_values user_cols kv' = kv_values user_cols kv"
  by (induction user_cols) (auto split: option.splits sum.splits)

lemma kv_values_ignores_extra:
  "kv_values user_cols (filter (\<lambda>(k, v). k \<in> set user_cols) kv) = kv_values user_cols kv"
  by (rule kv_values_cong) (simp add: list_all_iff dict_get_filter_keys)

lemma coerce_value_error: "coerce_value ty v = Inl e \<Longrightarrow> is_InvalidValue e"
  by (cases v) (auto simp: coerce_value_def Let_def split: if_splits option.splits)

lemma build_record_error:
  "build_record schema (zip cs vs) acc = Inl e \<Longrightarrow> list_all (\<lambda>c. dict_has schema (name c)) cs
     \<Longrightarrow> is_InvalidValue e"
proof (induction cs arbitrary: vs acc)
  case Nil
  then show ?case by simp
next
  case (Cons c cs)
  show ?case
  proof (cases vs)
    case Nil
    with Cons.prems show ?thesis by simp
  next
    case (Cons v vs')
    with Cons.prems Cons.IH show ?thesis
      by (auto simp: dict_has_def dict_get_def split: option.splits sum.splits
               dest: coerce_value_error)
  qed
qed

lemma build_record_Inr_coercible:
  "build_record schema (zip cs vs) acc = Inr r \<Longrightarrow> length cs = length vs
     \<Longrightarrow> list_all2 (\<lambda>c v. coercible schema (name c) v) cs vs"
proof (induction cs arbitrary: vs acc)
  case Nil
  then show ?case by simp
next
  case (Cons c cs)
  then obtain v vs' where vs: "vs = v # vs'" by (cases vs) auto
  from Cons.prems vs obtain ty v' where
    ty: "dict_get schema (name c) = Some ty" and v': "coerce_value ty v = Inr v'"
    and rest: "build_record schema (zip cs vs') (dict_set (name c) v' acc) = Inr r"
    by (auto split: option.splits sum.splits)
  from Cons.prems vs have "length cs = length vs'" by simp
  from Cons.IH [OF rest this] have "list_all2 (\<lambda>c v. coercible schema (name c) v) cs vs'" .
  moreover from ty v' have "coercible schema (name c) v" by (simp add: coercible_def)
  ultimately show ?case using vs by simp
qed

lemma build_record_keys:
  "build_record schema (zip cs vs) acc = Inr r \<Longrightarrow> length cs = length vs
     \<Longrightarrow> set (map fst r) = set (map fst acc) \<union> set (map name cs)"
proof (induction cs arbitrary: vs acc)
  case Nil
  then show ?case by simp
next
  case (Cons c cs)
  then obtain v vs' where vs: "vs = v # vs'" by (cases vs) auto
  from Cons.prems vs obtain ty v' where
    rest: "build_record schema (zip cs vs') (dict_set (name c) v' acc) = Inr r"
    by (auto split: option.splits sum.splits)
  from Cons.prems vs have "length cs = length vs'" by simp
  from Cons.IH [OF rest this] have
    "set (map fst r) = insert (name c) (set (map fst acc)) \<union> set (map name cs)"
    by (simp only: dict_set_keys)
  then show ?case by auto
qed


lemma known_meta_shape:
  "dict_get (tables_of meta) t = Some cols \<Longrightarrow> ensure_meta_shape meta = meta"
  by (cases meta) (auto simp: ensure_meta_shape_def tables_of_def dict_get_def)

lemma handle_insert_kv:
  assumes "cmd_name cmd = ''insert_kv''" "cmd_table cmd = Some t" "cmd_set_clause cmd = Some kv"
    and known: "dict_get (tables_of (meta_file w)) t = Some cols"
  shows "handle_insert_body cmd w
     = (case kv_values (filter (\<lambda>c. c \<noteq> ID_COLUMN) (map name cols)) kv of
          Inl e \<Rightarrow> Inl e
        | Inr vals \<Rightarrow>
            (case fst (insert_record (meta_file w) t vals (load_table_data t w)) of
               Inl e \<Rightarrow> Inl e
             | Inr (data', new_id) \<Rightarrow>
                 Inr (print (OutInserted new_id t) (save_table_data t data' w))))"
  using assms(1-3) known
  by (simp add: handle_insert_body_def insert_values_def user_columns_for_table_def
        columns_for_table_def table_or_empty_def load_metadata_def Let_def
        known_meta_shape [OF known])

lemma user_cols_names:
  "filter (\<lambda>c. c \<noteq> ID_COLUMN) (map name cols) = map name (filter (\<lambda>c. name c \<noteq> ID_COLUMN) cols)"
  by (simp add: filter_map comp_def)

lemma insert_record_row_keys:
  assumes "fst (insert_record metadata table_name vals table_data) = Inr (rows, new_id)"
    and known: "dict_get (tables_of metadata) table_name = Some cols"
  shows "\<exists>r. rows = table_data @ [r]
           \<and> set (map fst r) = insert ID_COLUMN (set (map name (filter (\<lambda>c. name c \<noteq> ID_COLUMN) cols)))"
proof -
  from assms(1) obtain rcd where
    len: "length vals = length (filter (\<lambda>c. name c \<noteq> ID_COLUMN) cols)"
    and b: "build_record (schema_map cols) (zip (filter (\<lambda>c. name c \<noteq> ID_COLUMN) cols) vals) [] = Inr rcd"
    and rows: "rows = table_data @ [dict_set ID_COLUMN (VInt (max_id_loop table_data 0 + 1)) rcd]"
    unfolding insert_record_def known_table [OF known]
    by (auto simp: Let_def split: if_splits sum.splits)
  from build_record_keys [OF b len [symmetric]] have
    k: "set (map fst rcd) = set (map name (filter (\<lambda>c. name c \<noteq> ID_COLUMN) cols))"
    by simp
  have "set (map fst (dict_set ID_COLUMN (VInt (max_id_loop table_data 0 + 1)) rcd))
          = insert ID_COLUMN (set (map fst rcd))"
    by (rule dict_set_keys)
  with k rows show ?thesis by metis
qed

lemma insert_record_uncoercible:
  assumes known: "dict_get (tables_of metadata) table_name = Some cols"
    and len: "length vals = length (filter (\<lambda>c. name c \<noteq> ID_COLUMN) cols)"
    and bad: "\<not> list_all2 (\<lambda>c v. coercible (schema_map cols) (name c) v)
                 (filter (\<lambda>c. name c \<noteq> ID_COLUMN) cols) vals"
  shows "\<exists>e. fst (insert_record metadata table_name vals table_data) = Inl e \<and> is_InvalidValue e"
proof -
  let ?ucols = "filter (\<lambda>c. name c \<noteq> ID_COLUMN) cols"
  have decl: "list_all (\<lambda>c. dict_has (schema_map cols) (name c)) ?ucols"
    by (simp add: list_all_iff schema_map_declared)
  obtain e where e: "build_record (schema_map cols) (zip ?ucols vals) [] = Inl e"
    using build_record_Inr_coercible [of "schema_map cols" ?ucols vals "[]"] len bad
    by (cases "build_record (schema_map cols) (zip ?ucols vals) []") auto
  from build_record_error [OF e decl] have "is_InvalidValue e" .
  with e len show ?thesis
    by (simp add: insert_record_def known_table [OF known])
qed


lemma parse_insert_tokens_Inr:
  "parse_insert_tokens line tokens = Inr cmd \<Longrightarrow>
     cmd_name cmd = ''insert_kv'' \<and> cmd_table cmd = Some (tokens ! 1)
     \<and> (\<exists>kv. parse_pairs (drop 2 tokens) [] = Inr kv \<and> cmd_set_clause cmd = Some kv)"
  by (auto simp: parse_insert_tokens_def split: if_splits sum.splits)

text \<open>
  C10, as stated, has the token-form insert fail with InvalidValue exactly when a declared
  non-ID column is missing from the pairs. The line \<open>insert t age=abc\<close> names every
  declared non-ID column of \<open>t\<close>, and the command still fails with InvalidValue: the value
  of a present column is not coercible to the column's type.
\<close>

theorem handle_insert_kv_coercion_counterexample:
  "parse_insert_tokens ''insert t age=abc'' [''insert'', ''t'', ''age=abc'']
     = Inr \<lparr>cmd_name = ''insert_kv'', cmd_table = Some ''t'', cmd_columns = None,
            cmd_values = None, cmd_set_clause = Some [(''age'', VStr ''abc'')],
            cmd_where_clause = None\<rparr>
   \<and> dict_has [(''age'', VStr ''abc'')] ''age''
   \<and> handle_insert_body
        \<lparr>cmd_name = ''insert_kv'', cmd_table = Some ''t'', cmd_columns = None,
         cmd_values = None, cmd_set_clause = Some [(''age'', VStr ''abc'')],
         cmd_where_clause = None\<rparr>
        \<lparr>meta_file = Some [(''t'', [\<lparr>name = ''ID'', type_name = ''int''\<rparr>,
                                     \<lparr>name = ''age'', type_name = ''int''\<rparr>])],
         data_files = [(''t'', ([], 5))], now = 7, cacher = [], printed = []\<rparr>
     = Inl (InvalidValue (OVal (VStr ''abc'')) ExpectedInt)"
  by code_simp

text \<open>
  C10 (amended): for the token-form insert on a known table, the command fails with
  InvalidValue exactly when some declared non-ID column is missing from the given pairs or
  the value given for a declared non-ID column is not coercible to the column's type;
  otherwise it inserts a row whose keys are the declared columns and whose values are taken
  from the pairs in declared column order, with the automatically assigned ID. Pairs whose
  key is not a declared non-ID column (a pair keyed ID, pairs keyed by undeclared names) are
  ignored: removing them changes nothing, and their keys and values do not appear in the
  inserted row.
\<close>

theorem handle_insert_kv_outcome:
  "(parse_insert_tokens line tokens = Inr parsed
      \<longrightarrow> cmd_name parsed = ''insert_kv'' \<and> cmd_table parsed = Some (tokens ! 1)
          \<and> (\<exists>pairs. parse_pairs (drop 2 tokens) [] = Inr pairs \<and> cmd_set_clause parsed = Some pairs))
   \<and> (cmd_name cmd = ''insert_kv'' \<and> cmd_table cmd = Some t \<and> cmd_set_clause cmd = Some kv
        \<and> dict_get (tables_of (meta_file w)) t = Some cols
      \<longrightarrow>
        (\<not> list_all (dict_has kv) (filter (\<lambda>c. c \<noteq> ID_COLUMN) (map name cols))
           \<longrightarrow> (\<exists>c. handle_insert_body cmd w = Inl (InvalidValue (OStr c) AllFieldsRequired)
                    \<and> c \<in> set (filter (\<lambda>c. c \<noteq> ID_COLUMN) (map name cols))
                    \<and> \<not> dict_has kv c))
        \<and> (list_all (dict_has kv) (filter (\<lambda>c. c \<noteq> ID_COLUMN) (map name cols))
             \<and> \<not> list_all (\<lambda>c. coercible (schema_map cols) c (row_get kv c))
                    (filter (\<lambda>c. c \<noteq> ID_COLUMN) (map name cols))
           \<longrightarrow> (\<exists>e. handle_insert_body cmd w = Inl e \<and> is_InvalidValue e))
        \<and> (list_all (dict_has kv) (filter (\<lambda>c. c \<noteq> ID_COLUMN) (map name cols))
             \<and> list_all (\<lambda>c. coercible (schema_map cols) c (row_get kv c))
                  (filter (\<lambda>c. c \<noteq> ID_COLUMN) (map name cols))
           \<longrightarrow> (\<exists>r. handle_insert_body cmd w
                       = Inr (print (OutInserted (Max (set (0 # parsable_ids (load_table_data t w))) + 1) t)
                               (save_table_data t (load_table_data t w @ [r]) w))
                    \<and> fst (insert_record (meta_file w) t
                              (map (row_get kv) (filter (\<lambda>c. c \<noteq> ID_COLUMN) (map name cols)))
                              (load_table_data t w))
                       = Inr (load_table_data t w @ [r],
                              Max (set (0 # parsable_ids (load_table_data t w))) + 1)
                    \<and> set (map fst r)
                       = insert ID_COLUMN (set (filter (\<lambda>c. c \<noteq> ID_COLUMN) (map name cols)))
                    \<and> row_get r ID_COLUMN
                       = VInt (Max (set (0 # parsable_ids (load_table_data t w))) + 1)))
        \<and> handle_insert_body
             (cmd\<lparr>cmd_set_clause :=
                    Some (filter (\<lambda>(k, v). k \<in> set (filter (\<lambda>c. c \<noteq> ID_COLUMN) (map name cols))) kv)\<rparr>)
             w
           = handle_insert_body cmd w)"
proof -
  let ?U = "filter (\<lambda>c. c \<noteq> ID_COLUMN) (map name cols)"
  let ?ucols = "filter (\<lambda>c. name c \<noteq> ID_COLUMN) cols"
  let ?data = "load_table_data t w"
  let ?N = "Max (set (0 # parsable_ids ?data)) + 1"
  have U: "?U = map name ?ucols" by (rule user_cols_names)
  have parse: "cmd_name parsed = ''insert_kv'' \<and> cmd_table parsed = Some (tokens ! 1)
          \<and> (\<exists>pairs. parse_pairs (drop 2 tokens) [] = Inr pairs \<and> cmd_set_clause parsed = Some pairs)"
    if "parse_insert_tokens line tokens = Inr parsed"
    using parse_insert_tokens_Inr [OF that] .
  {
    assume c: "cmd_name cmd = ''insert_kv''" "cmd_table cmd = Some t" "cmd_set_clause cmd = Some kv"
      and known: "dict_get (tables_of (meta_file w)) t = Some cols"
    note body = handle_insert_kv [OF c known]
    have missing: "\<exists>c. handle_insert_body cmd w = Inl (InvalidValue (OStr c) AllFieldsRequired)
                    \<and> c \<in> set ?U \<and> \<not> dict_has kv c"
      if "\<not> list_all (dict_has kv) ?U"
      using kv_values_missing [OF that] body by auto
    have uncoercible: "\<exists>e. handle_insert_body cmd w = Inl e \<and> is_InvalidValue e"
      if p: "list_all (dict_has kv) ?U"
        and bad: "\<not> list_all (\<lambda>c. coercible (schema_map cols) c (row_get kv c)) ?U"
    proof -
      have len: "length (map (row_get kv) ?U) = length ?ucols" by (simp add: U)
      from bad have "\<not> list_all2 (\<lambda>c v. coercible (schema_map cols) (name c) v) ?ucols
                        (map (row_get kv) ?U)"
        unfolding U by (auto simp: list_all2_conv_all_nth list_all_length)
      from insert_record_uncoercible [OF known len this, of ?data]
      show ?thesis
        unfolding body kv_values_present [OF p] by auto
    qed
    have good: "\<exists>r. handle_insert_body cmd w
                       = Inr (print (OutInserted ?N t) (save_table_data t (?data @ [r]) w))
                    \<and> fst (insert_record (meta_file w) t (map (row_get kv) ?U) ?data)
                       = Inr (?data @ [r], ?N)
                    \<and> set (map fst r) = insert ID_COLUMN (set ?U)
                    \<and> row_get r ID_COLUMN = VInt ?N"
      if p: "list_all (dict_has kv) ?U"
        and ok: "list_all (\<lambda>c. coercible (schema_map cols) c (row_get kv c)) ?U"
    proof -
      have len: "length (map (row_get kv) ?U) = length ?ucols" by (simp add: U)
      from ok have "list_all2 (\<lambda>c v. coercible (schema_map cols) (name c) v) ?ucols
                        (map (row_get kv) ?U)"
        unfolding U by (auto simp: list_all2_conv_all_nth list_all_length)
      from insert_record_valid [OF known len this, of ?data] obtain r where
        ins: "insert_record (meta_file w) t (map (row_get kv) ?U) ?data
                = (Inr (?data @ [r], ?N), meta_file w, ?data @ [r])"
        and id: "row_get r ID_COLUMN = VInt ?N"
        by blast
      from ins have f: "fst (insert_record (meta_file w) t (map (row_get kv) ?U) ?data)
                          = Inr (?data @ [r], ?N)"
        by simp
      from insert_record_row_keys [OF f known] have "set (map fst r) = insert ID_COLUMN (set ?U)"
        unfolding U by simp
      with f id show ?thesis
        unfolding body kv_values_present [OF p] by auto
    qed
    have extra: "handle_insert_body (cmd\<lparr>cmd_set_clause := Some (filter (\<lambda>(k, v). k \<in> set ?U) kv)\<rparr>) w
                   = handle_insert_body cmd w"
    proof -
      have "handle_insert_body (cmd\<lparr>cmd_set_clause := Some (filter (\<lambda>(k, v). k \<in> set ?U) kv)\<rparr>) w
              = (case kv_values ?U (filter (\<lambda>(k, v). k \<in> set ?U) kv) of
                   Inl e \<Rightarrow> Inl e
                 | Inr vals \<Rightarrow>
                     (case fst (insert_record (meta_file w) t vals ?data) of
                        Inl e \<Rightarrow> Inl e
                      | Inr (data', new_id) \<Rightarrow>
                          Inr (print (OutInserted new_id t) (save_table_data t data' w))))"
        using c by (intro handle_insert_kv [OF _ _ _ known]) simp_all
      then show ?thesis
        unfolding body kv_values_ignores_extra .
    qed
    note missing uncoercible good extra
  }
  with parse show ?thesis by blast
qed


text \<open>
  The amended C10 on \<open>insert t name=Bob age=41 ID=9 zzz=true\<close>, which inserts Bob with the
  ID 2, and on \<open>insert t name=Bob zzz=true\<close>, which misses \<open>age\<close>.
\<close>

theorem handle_insert_kv_outcome_witness:
  "handle_insert_body
      \<lparr>cmd_name = ''insert_kv'', cmd_table = Some ''t'', cmd_columns = None, cmd_values = None,
       cmd_set_clause = Some [(''name'', VStr ''Bob''), (''age'', VInt 41), (''ID'', VInt 9),
                              (''zzz'', VBool True)],
       cmd_where_clause = None\<rparr>
      \<lparr>meta_file = Some [(''t'', [\<lparr>name = ''ID'', type_name = ''int''\<rparr>,
                                   \<lparr>name = ''name'', type_name = ''str''\<rparr>,
                                   \<lparr>name = ''age'', type_name = ''int''\<rparr>])],
       data_files = [(''t'', ([[(''name'', VStr ''Ann''), (''age'', VInt 30), (''ID'', VInt 1)]], 5))],
       now = 7, cacher = [], printed = []\<rparr>
     = Inr \<lparr>meta_file = Some [(''t'', [\<lparr>name = ''ID'', type_name = ''int''\<rparr>,
                                   \<lparr>name = ''name'', type_name = ''str''\<rparr>,
                                   \<lparr>name = ''age'', type_name = ''int''\<rparr>])],
            data_files = [(''t'', ([[(''name'', VStr ''Ann''), (''age'', VInt 30), (''ID'', VInt 1)],
                                    [(''name'', VStr ''Bob''), (''age'', VInt 41), (''ID'', VInt 2)]], 7))],
            now = 7, cacher = [], printed = [OutInserted 2 ''t'']\<rparr>
   \<and> handle_insert_body
      \<lparr>cmd_name = ''insert_kv'', cmd_table = Some ''t'', cmd_columns = None, cmd_values = None,
       cmd_set_clause = Some [(''name'', VStr ''Bob''), (''zzz'', VBool True)],
       cmd_where_clause = None\<rparr>
      \<lparr>meta_file = Some [(''t'', [\<lparr>name = ''ID'', type_name = ''int''\<rparr>,
                                   \<lparr>name = ''name'', type_name = ''str''\<rparr>,
                                   \<lparr>name = ''age'', type_name = ''int''\<rparr>])],
       data_files = [(''t'', ([[(''name'', VStr ''Ann''), (''age'', VInt 30), (''ID'', VInt 1)]], 5))],
       now = 7, cacher = [], printed = []\<rparr>
     = Inl (InvalidValue (OStr ''age'') AllFieldsRequired)"
proof -
  let ?cols = "[\<lparr>name = ''ID'', type_name = ''int''\<rparr>, \<lparr>name = ''name'', type_name = ''str''\<rparr>,
                \<lparr>name = ''age'', type_name = ''int''\<rparr>]"
  let ?ann = "[(''name'', VStr ''Ann''), (''age'', VInt 30), (''ID'', VInt 1)]"
  let ?bob = "[(''name'', VStr ''Bob''), (''age'', VInt 41), (''ID'', VInt 2)]"
  let ?W = "\<lparr>meta_file = Some [(''t'', ?cols)], data_files = [(''t'', ([?ann], 5))],
             now = 7, cacher = [], printed = []\<rparr>"
  let ?kv1 = "[(''name'', VStr ''Bob''), (''age'', VInt 41), (''ID'', VInt 9), (''zzz'', VBool True)]"
  let ?kv2 = "[(''name'', VStr ''Bob''), (''zzz'', VBool True)]"
  let ?c1 = "\<lparr>cmd_name = ''insert_kv'', cmd_table = Some ''t'', cmd_columns = None,
              cmd_values = None, cmd_set_clause = Some ?kv1, cmd_where_clause = None\<rparr>"
  let ?c2 = "\<lparr>cmd_name = ''insert_kv'', cmd_table = Some ''t'', cmd_columns = None,
              cmd_values = None, cmd_set_clause = Some ?kv2, cmd_where_clause = None\<rparr>"
  let ?U = "filter (\<lambda>c. c \<noteq> ID_COLUMN) (map name ?cols)"
  have known: "dict_get (tables_of (meta_file ?W)) ''t'' = Some ?cols" by code_simp
  have U: "?U = [''name'', ''age'']" by code_simp
  have data: "load_table_data ''t'' ?W = [?ann]" by code_simp
  have present: "list_all (dict_has ?kv1) ?U" by code_simp
  have coerc: "list_all (\<lambda>c. coercible (schema_map ?cols) c (row_get ?kv1 c)) ?U" by code_simp
  have absent: "\<not> list_all (dict_has ?kv2) ?U" by code_simp
  have has_name: "dict_has ?kv2 ''name''" by code_simp
  have ins: "fst (insert_record (meta_file ?W) ''t'' (map (row_get ?kv1) ?U) [?ann])
               = Inr ([?ann, ?bob], 2)"
    by code_simp
  have n: "Max (set (0 # parsable_ids [?ann])) + 1 = 2" by code_simp
  have s1: "cmd_name ?c1 = ''insert_kv''" "cmd_table ?c1 = Some ''t''"
    "cmd_set_clause ?c1 = Some ?kv1" by simp_all
  have s2: "cmd_name ?c2 = ''insert_kv''" "cmd_table ?c2 = Some ''t''"
    "cmd_set_clause ?c2 = Some ?kv2" by simp_all
  note inst1 = handle_insert_kv_outcome [of "[]" "[]" ?c1 ?c1 "''t''" ?kv1 ?W ?cols,
      THEN conjunct2, THEN mp, OF conjI [OF s1(1) conjI [OF s1(2) conjI [OF s1(3) known]]]]
  note inst2 = handle_insert_kv_outcome [of "[]" "[]" ?c2 ?c2 "''t''" ?kv2 ?W ?cols,
      THEN conjunct2, THEN mp, OF conjI [OF s2(1) conjI [OF s2(2) conjI [OF s2(3) known]]]]
  from inst1 [THEN conjunct2, THEN conjunct2, THEN conjunct1, THEN mp, OF conjI [OF present coerc]]
  obtain r where
    h: "handle_insert_body ?c1 ?W
          = Inr (print (OutInserted (Max (set (0 # parsable_ids (load_table_data ''t'' ?W))) + 1) ''t'')
                  (save_table_data ''t'' (load_table_data ''t'' ?W @ [r]) ?W))"
    and i: "fst (insert_record (meta_file ?W) ''t'' (map (row_get ?kv1) ?U) (load_table_data ''t'' ?W))
          = Inr (load_table_data ''t'' ?W @ [r],
                 Max (set (0 # parsable_ids (load_table_data ''t'' ?W))) + 1)"
    by blast
  from i ins have r: "r = ?bob" unfolding data by simp
  have 1: "handle_insert_body ?c1 ?W
             = Inr (?W\<lparr>data_files := [(''t'', ([?ann, ?bob], 7))], printed := [OutInserted 2 ''t'']\<rparr>)"
    using h unfolding data n r by (simp add: print_def save_table_data_def)
  from inst2 [THEN conjunct1, THEN mp, OF absent]
  obtain c where
    m: "handle_insert_body ?c2 ?W = Inl (InvalidValue (OStr c) AllFieldsRequired)"
    and c: "c \<in> set ?U" "\<not> dict_has ?kv2 c"
    by blast
  from c has_name have "c = ''age''" unfolding U by auto
  with m have 2: "handle_insert_body ?c2 ?W = Inl (InvalidValue (OStr ''age'') AllFieldsRequired)"
    by simp
  from 1 2 show ?thesis by simp
qed

subsection \<open>The error boundary\<close>

text \<open>
  Every command other than \<open>select\<close> and \<open>exit\<close> is run under the error boundary or prints
  directly, and a line that does not parse is answered by the loop itself: in each case the
  loop goes on to its next prompt.
\<close>

lemma loop_body_boundary:
  assumes "ev_parsed ev = Inr cmd" "cmd_name cmd \<noteq> ''select''" "cmd_name cmd \<noteq> ''exit''"
  shows "\<exists>w'. loop_body ev w = Continue w'"
  using assms by (simp add: loop_body_def Let_def)

lemma loop_body_parse_error:
  "ev_parsed ev = Inl e \<Longrightarrow> \<exists>w'. loop_body ev w = Continue w'"
  by (simp add: loop_body_def Let_def)

text \<open>
  C1 holds for every handler that carries \<open>handle_db_errors\<close>, and fails for \<open>select\<close>, the
  one command \<open>run\<close> handles inline without the boundary. On a table \<open>users\<close> with the
  columns \<open>ID\<close> and \<open>age\<close>, the line \<open>select from users where nope = 1\<close> ends the turn
  in an uncaught \<open>KeyError\<close> and the line \<open>select from users where age = old\<close> in an
  uncaught \<open>InvalidValue\<close>; nothing is printed, and \<open>run\<close> ends there without
  reaching the next line (third conjunct). The sibling \<open>delete\<close> with the same undeclared
  column prints the not-found message and goes on (last conjunct).
\<close>

theorem select_error_leaves_loop:
  "loop_body
      \<lparr>ev_head = ''select'',
       ev_parsed = Inr \<lparr>cmd_name = ''select'', cmd_table = Some ''users'', cmd_columns = None,
                        cmd_values = None, cmd_set_clause = None,
                        cmd_where_clause = Some [(''nope'', VInt 1)]\<rparr>,
       ev_answer = [], ev_time = 9\<rparr>
      \<lparr>meta_file = Some [(''users'', [\<lparr>name = ''ID'', type_name = ''int''\<rparr>,
                                       \<lparr>name = ''age'', type_name = ''int''\<rparr>])],
       data_files = [(''users'', ([[(''age'', VInt 30), (''ID'', VInt 1)]], 5))],
       now = 7, cacher = [], printed = []\<rparr>
     = Crash (KeyError ''nope'')
        \<lparr>meta_file = Some [(''users'', [\<lparr>name = ''ID'', type_name = ''int''\<rparr>,
                                         \<lparr>name = ''age'', type_name = ''int''\<rparr>])],
         data_files = [(''users'', ([[(''age'', VInt 30), (''ID'', VInt 1)]], 5))],
         now = 9, cacher = [], printed = []\<rparr>
   \<and> loop_body
      \<lparr>ev_head = ''select'',
       ev_parsed = Inr \<lparr>cmd_name = ''select'', cmd_table = Some ''users'', cmd_columns = None,
                        cmd_values = None, cmd_set_clause = None,
                        cmd_where_clause = Some [(''age'', VStr ''old'')]\<rparr>,
       ev_answer = [], ev_time = 9\<rparr>
      \<lparr>meta_file = Some [(''users'', [\<lparr>name = ''ID'', type_name = ''int''\<rparr>,
                                       \<lparr>name = ''age'', type_name = ''int''\<rparr>])],
       data_files = [(''users'', ([[(''age'', VInt 30), (''ID'', VInt 1)]], 5))],
       now = 7, cacher = [], printed = []\<rparr>
     = Crash (InvalidValue (OVal (VStr ''old'')) ExpectedInt)
        \<lparr>meta_file = Some [(''users'', [\<lparr>name = ''ID'', type_name = ''int''\<rparr>,
                                         \<lparr>name = ''age'', type_name = ''int''\<rparr>])],
         data_files = [(''users'', ([[(''age'', VInt 30), (''ID'', VInt 1)]], 5))],
         now = 9, cacher = [], printed = []\<rparr>
   \<and> run
      [\<lparr>ev_head = ''select'',
        ev_parsed = Inr \<lparr>cmd_name = ''select'', cmd_table = Some ''users'', cmd_columns = None,
                         cmd_values = None, cmd_set_clause = None,
                         cmd_where_clause = Some [(''nope'', VInt 1)]\<rparr>,
        ev_answer = [], ev_time = 9\<rparr>,
       \<lparr>ev_head = ''help'',
        ev_parsed = Inr \<lparr>cmd_name = ''help'', cmd_table = None, cmd_columns = None,
                         cmd_values = None, cmd_set_clause = None, cmd_where_clause = None\<rparr>,
        ev_answer = [], ev_time = 10\<rparr>]
      \<lparr>meta_file = Some [(''users'', [\<lparr>name = ''ID'', type_name = ''int''\<rparr>,
                                       \<lparr>name = ''age'', type_name = ''int''\<rparr>])],
       data_files = [(''users'', ([[(''age'', VInt 30), (''ID'', VInt 1)]], 5))],
       now = 7, cacher = [], printed = []\<rparr>
     = Crash (KeyError ''nope'')
        \<lparr>meta_file = Some [(''users'', [\<lparr>name = ''ID'', type_name = ''int''\<rparr>,
                                         \<lparr>name = ''age'', type_name = ''int''\<rparr>])],
         data_files = [(''users'', ([[(''age'', VInt 30), (''ID'', VInt 1)]], 5))],
         now = 9, cacher = [], printed = [OutHelp]\<rparr>
   \<and> loop_body
      \<lparr>ev_head = ''delete'',
       ev_parsed = Inr \<lparr>cmd_name = ''delete'', cmd_table = Some ''users'', cmd_columns = None,
                        cmd_values = None, cmd_set_clause = None,
                        cmd_where_clause = Some [(''nope'', VInt 1)]\<rparr>,
       ev_answer = ''y'', ev_time = 9\<rparr>
      \<lparr>meta_file = Some [(''users'', [\<lparr>name = ''ID'', type_name = ''int''\<rparr>,
                                       \<lparr>name = ''age'', type_name = ''int''\<rparr>])],
       data_files = [(''users'', ([[(''age'', VInt 30), (''ID'', VInt 1)]], 5))],
       now = 7, cacher = [], printed = []\<rparr>
     = Continue
        \<lparr>meta_file = Some [(''users'', [\<lparr>name = ''ID'', type_name = ''int''\<rparr>,
                                         \<lparr>name = ''age'', type_name = ''int''\<rparr>])],
         data_files = [(''users'', ([[(''age'', VInt 30), (''ID'', VInt 1)]], 5))],
         now = 9, cacher = [], printed = [OutNotFound ''nope'', OutTiming ''_handle_delete'']\<rparr>"
  by code_simp

end
